theory Spec2Isabelle
  imports Complex_Main "HOL-Library.Sublist" "HOL-Library.Multiset"
begin

section \<open>Numbers and strings of the host language\<close>

text \<open>
  The counters of the tracker are JavaScript numbers that only ever hold integers; they are
  modelled as \<open>int\<close>, exact as long as their magnitude stays below \<open>2 ^ 53\<close>. A quotient of
  two counters is a binary64 value: it is modelled as the rational it denotes, and every
  arithmetic operation that produces one rounds its exact result to the nearest binary64
  value, ties to the even significand (\<open>fl\<close>). Subnormal results and overflow do not occur
  for quotients and small multiples of such counters and are not modelled. Every division
  of the source stands behind a guard that excludes a zero divisor.
\<close>

definition pow2 :: "int \<Rightarrow> rat" where
  "pow2 e = (if 0 \<le> e then 2 ^ nat e else 1 / 2 ^ nat (- e))"

definition round_ties_even :: "rat \<Rightarrow> int" where
  "round_ties_even x =
     (let n = \<lfloor>x\<rfloor>; r = x - of_int n
      in if r < 1 / 2 then n else if 1 / 2 < r then n + 1 else if even n then n else n + 1)"

function bit_length :: "int \<Rightarrow> int" where
  "bit_length n = (if n \<le> 0 then 0 else 1 + bit_length (n div 2))"
  by pat_completeness auto
termination
  by (relation "measure nat") auto

text \<open>\<open>binade x\<close> is the exponent \<open>e\<close> with \<open>2 ^ e \<le> x < 2 ^ (e + 1)\<close>, for positive \<open>x\<close>.\<close>

definition binade :: "rat \<Rightarrow> int" where
  "binade x =
     (let (p, q) = quotient_of x;
          e = bit_length p - bit_length q
      in if x < pow2 e then e - 1 else e)"

text \<open>Rounding to binary64: a significand of 53 bits, round to nearest, ties to even.\<close>

definition fl :: "rat \<Rightarrow> rat" where
  "fl x =
     (if x = 0 then 0
      else let a = \<bar>x\<bar>; s = pow2 (binade a - 52); m = of_int (round_ties_even (a / s)) * s
           in if x < 0 then - m else m)"

text \<open>\<open>a / b\<close> on two integer-valued numbers, \<open>x * y\<close> and \<open>x / y\<close> on binary64 values.\<close>

definition js_quotient :: "int \<Rightarrow> int \<Rightarrow> rat" where
  "js_quotient a b = fl (of_int a / of_int b)"

definition js_times :: "rat \<Rightarrow> rat \<Rightarrow> rat" where
  "js_times x y = fl (x * y)"

definition js_divide :: "rat \<Rightarrow> rat \<Rightarrow> rat" where
  "js_divide x y = fl (x / y)"

text \<open>\<open>Math.round\<close>: the nearest integer, a tie going towards plus infinity.\<close>

definition Math_round :: "rat \<Rightarrow> int" where
  "Math_round x = \<lfloor>x + 1 / 2\<rfloor>"

text \<open>
  The expression \<open>Math.round((a / b) * 100)\<close>, which the tracker, the recommendations and
  the timeline all compute from two counters.
\<close>

definition round_percent :: "int \<Rightarrow> int \<Rightarrow> int" where
  "round_percent a b = Math_round (js_times (js_quotient a b) 100)"

text \<open>
  The decimal text of an integer-valued number, as a template literal renders it
  (magnitudes below \<open>10 ^ 21\<close>).
\<close>

definition digit_char :: "nat \<Rightarrow> char" where
  "digit_char d = ''0123456789'' ! (d mod 10)"

function digits_of :: "nat \<Rightarrow> string" where
  "digits_of n = (if n < 10 then [digit_char n] else digits_of (n div 10) @ [digit_char (n mod 10)])"
  by pat_completeness auto
termination
  by (relation "measure id") auto

definition show_int :: "int \<Rightarrow> string" where
  "show_int i = (if i < 0 then CHR ''-'' # digits_of (nat (- i)) else digits_of (nat i))"

text \<open>\<open>s.includes(p)\<close>: \<open>p\<close> occurs in \<open>s\<close> as a contiguous run of characters.\<close>

definition str_includes :: "string \<Rightarrow> string \<Rightarrow> bool" where
  "str_includes s p = sublist p s"

text \<open>\<open>s.split('/')\<close>; the result is never empty.\<close>

fun split_slash :: "string \<Rightarrow> string list" where
  "split_slash [] = [[]]"
| "split_slash (c # cs) =
     (if c = CHR ''/'' then [] # split_slash cs
      else (case split_slash cs of [] \<Rightarrow> [[c]] | s # ss \<Rightarrow> (c # s) # ss))"

text \<open>\<open>path.split('/').pop() || path\<close>: the last segment, or the whole path when that is empty.\<close>

definition base_name :: "string \<Rightarrow> string" where
  "base_name path = (let s = last (split_slash path) in if s = [] then path else s)"

section \<open>The metrics tracker (src/metricsTracker.ts)\<close>

text \<open>Instants are milliseconds since the epoch.\<close>

record analysis_entry =
  a_timestamp :: int
  a_fileName :: string
  a_issuesCount :: int
  a_language :: string

record fix_entry =
  f_timestamp :: int
  f_featureId :: string
  f_fileName :: string

text \<open>
  \<open>featureUsage\<close> is a plain object used as a dictionary. Its own properties are kept as an
  association list in creation order, which is what decides the order of its entries.
\<close>

record AdoptionMetrics =
  filesAnalyzed :: int
  issuesFound :: int
  fixesApplied :: int
  featureUsage :: "(string \<times> int) list"
  modernizationProgress :: int
  lastAnalysis :: int
  sessionStartTime :: int
  analysisHistory :: "analysis_entry list"
  fixHistory :: "fix_entry list"

text \<open>
  The constructor; \<open>t1\<close> and \<open>t2\<close> are the instants its two clock reads return. Every
  operation below that reads the clock takes the instants read as arguments, in the order
  of the reads.
\<close>

definition new_tracker :: "int \<Rightarrow> int \<Rightarrow> AdoptionMetrics" where
  "new_tracker t1 t2 =
     \<lparr>filesAnalyzed = 0, issuesFound = 0, fixesApplied = 0, featureUsage = [],
      modernizationProgress = 0, lastAnalysis = t1, sessionStartTime = t2,
      analysisHistory = [], fixHistory = []\<rparr>"

definition updateModernizationProgress :: "AdoptionMetrics \<Rightarrow> AdoptionMetrics" where
  "updateModernizationProgress m =
     (let m1 = (if issuesFound m = 0
                then m\<lparr>modernizationProgress := (if 0 < filesAnalyzed m then 100 else 0)\<rparr>
                else m\<lparr>modernizationProgress :=
                        Math_round (js_times (js_quotient (fixesApplied m) (issuesFound m)) 100)\<rparr>)
      in m1\<lparr>modernizationProgress := min (modernizationProgress m1) 100\<rparr>)"

text \<open>A parameter with a default value is an \<open>option\<close>: \<open>None\<close> when the caller leaves it out.\<close>

definition recordAnalysis ::
  "int \<Rightarrow> int \<Rightarrow> string \<Rightarrow> int \<Rightarrow> string option \<Rightarrow> AdoptionMetrics \<Rightarrow> AdoptionMetrics" where
  "recordAnalysis t1 t2 filePath issuesCount language m =
     updateModernizationProgress
       (m\<lparr>filesAnalyzed := filesAnalyzed m + 1,
          issuesFound := issuesFound m + issuesCount,
          lastAnalysis := t1,
          analysisHistory := analysisHistory m @
            [\<lparr>a_timestamp = t2, a_fileName = base_name filePath, a_issuesCount = issuesCount,
              a_language = (case language of None \<Rightarrow> ''unknown'' | Some l \<Rightarrow> l)\<rparr>]\<rparr>)"

definition recordFix :: "int \<Rightarrow> string \<Rightarrow> string option \<Rightarrow> AdoptionMetrics \<Rightarrow> AdoptionMetrics" where
  "recordFix t featureId fileName m =
     updateModernizationProgress
       (m\<lparr>fixesApplied := fixesApplied m + 1,
          fixHistory := fixHistory m @
            [\<lparr>f_timestamp = t, f_featureId = featureId,
              f_fileName = base_name (case fileName of None \<Rightarrow> [] | Some n \<Rightarrow> n)\<rparr>]\<rparr>)"

text \<open>
  Writing a property: an existing own property keeps its place, a new one goes last.
\<close>

fun set_property :: "(string \<times> int) list \<Rightarrow> string \<Rightarrow> int \<Rightarrow> (string \<times> int) list" where
  "set_property [] k v = [(k, v)]"
| "set_property ((k', v') # ps) k v =
     (if k' = k then (k, v) # ps else (k', v') # set_property ps k v)"

text \<open>
  \<open>featureUsage\<close> is created by an object literal, so a read of a key it does not own finds
  the member of that name of \<open>Object.prototype\<close>, if there is one. Such a member is not a
  number: the truthiness test skips the initialisation and \<open>+=\<close> stores a string. Counts
  are integers in this model, so a call with one of these keys is outside it (\<open>None\<close>).
\<close>

definition Object_prototype_keys :: "string list" where
  "Object_prototype_keys =
     [''constructor'', ''hasOwnProperty'', ''isPrototypeOf'', ''propertyIsEnumerable'',
      ''toLocaleString'', ''toString'', ''valueOf'', ''__proto__'', ''__defineGetter__'',
      ''__defineSetter__'', ''__lookupGetter__'', ''__lookupSetter__'']"

text \<open>\<open>!x\<close> for \<open>x\<close> read from the dictionary: true for a missing key and for zero.\<close>

definition falsy :: "int option \<Rightarrow> bool" where
  "falsy x = (x = None \<or> x = Some 0)"

definition recordFeatureUsage ::
  "string \<Rightarrow> int option \<Rightarrow> AdoptionMetrics \<Rightarrow> AdoptionMetrics option" where
  "recordFeatureUsage featureId cnt m =
     (if featureId \<in> set Object_prototype_keys then None
      else
        let c = (case cnt of None \<Rightarrow> 1 | Some c \<Rightarrow> c);
            u = featureUsage m;
            u1 = (if falsy (map_of u featureId) then set_property u featureId 0 else u)
        in (case map_of u1 featureId of
              None \<Rightarrow> None
            | Some v \<Rightarrow> Some (m\<lparr>featureUsage := set_property u1 featureId (v + c)\<rparr>)))"

text \<open>\<open>getMetrics\<close> spreads the fields into a new object; as a value that is the record.\<close>

definition getMetrics :: "AdoptionMetrics \<Rightarrow> AdoptionMetrics" where
  "getMetrics m = m"

text \<open>
  \<open>Object.entries\<close> lists the keys that are array indices first, in ascending numeric order,
  and then the other keys in creation order. An array index is the canonical decimal text
  of an integer from \<open>0\<close> to \<open>2 ^ 32 - 2\<close>.
\<close>

definition digit_value :: "char \<Rightarrow> int option" where
  "digit_value c =
     map_of [(CHR ''0'', 0), (CHR ''1'', 1), (CHR ''2'', 2), (CHR ''3'', 3), (CHR ''4'', 4),
             (CHR ''5'', 5), (CHR ''6'', 6), (CHR ''7'', 7), (CHR ''8'', 8), (CHR ''9'', 9)] c"

definition decimal_value :: "string \<Rightarrow> int" where
  "decimal_value s = foldl (\<lambda>a c. 10 * a + (case digit_value c of None \<Rightarrow> 0 | Some d \<Rightarrow> d)) 0 s"

definition is_array_index :: "string \<Rightarrow> bool" where
  "is_array_index s =
     (s \<noteq> [] \<and> list_all (\<lambda>c. digit_value c \<noteq> None) s \<and> (s = ''0'' \<or> hd s \<noteq> CHR ''0'')
      \<and> length s \<le> 10 \<and> decimal_value s \<le> 4294967294)"

definition Object_entries :: "(string \<times> int) list \<Rightarrow> (string \<times> int) list" where
  "Object_entries ps =
     sort_key (\<lambda>p. decimal_value (fst p)) (filter (\<lambda>p. is_array_index (fst p)) ps)
     @ filter (\<lambda>p. \<not> is_array_index (fst p)) ps"

record usage_entry =
  feature :: string
  count :: int

text \<open>
  \<open>Array.prototype.sort\<close> with the comparator \<open>b.count - a.count\<close> is a stable sort into
  descending order of \<open>count\<close>: \<open>sort_key\<close> on the negated count.
\<close>

definition getMostUsedFeatures :: "AdoptionMetrics \<Rightarrow> usage_entry list" where
  "getMostUsedFeatures m =
     take 10
       (sort_key (\<lambda>e. - count e)
          (map (\<lambda>(f, c). \<lparr>feature = f, count = c\<rparr>) (Object_entries (featureUsage m))))"

definition getAnalysisHistory :: "AdoptionMetrics \<Rightarrow> analysis_entry list" where
  "getAnalysisHistory m = rev (analysisHistory m)"

definition getFixHistory :: "AdoptionMetrics \<Rightarrow> fix_entry list" where
  "getFixHistory m = rev (fixHistory m)"

record session_stats =
  duration :: int
  filesAnalyzedThisSession :: int
  issuesFoundThisSession :: int
  fixesAppliedThisSession :: int
  averageIssuesPerFile :: rat

definition getSessionStats :: "int \<Rightarrow> AdoptionMetrics \<Rightarrow> session_stats" where
  "getSessionStats now m =
     \<lparr>duration = Math_round (js_quotient (now - sessionStartTime m) (1000 * 60)),
      filesAnalyzedThisSession = filesAnalyzed m,
      issuesFoundThisSession = issuesFound m,
      fixesAppliedThisSession = fixesApplied m,
      averageIssuesPerFile =
        (if 0 < filesAnalyzed m
         then js_divide
                (of_int (Math_round (js_times (js_quotient (issuesFound m) (filesAnalyzed m)) 10)))
                10
         else 0)\<rparr>"

definition reset :: "int \<Rightarrow> int \<Rightarrow> AdoptionMetrics \<Rightarrow> AdoptionMetrics" where
  "reset t1 t2 m =
     \<lparr>filesAnalyzed = 0, issuesFound = 0, fixesApplied = 0, featureUsage = [],
      modernizationProgress = 0, lastAnalysis = t1, sessionStartTime = t2,
      analysisHistory = [], fixHistory = []\<rparr>"

text \<open>Sequences of calls on one tracker.\<close>

datatype tracker_call =
    RecordAnalysis int int string int "string option"
  | RecordFix int string "string option"
  | RecordFeatureUsage string "int option"
  | Reset int int

fun call :: "tracker_call \<Rightarrow> AdoptionMetrics \<Rightarrow> AdoptionMetrics option" where
  "call (RecordAnalysis t1 t2 p n l) m = Some (recordAnalysis t1 t2 p n l m)"
| "call (RecordFix t f n) m = Some (recordFix t f n m)"
| "call (RecordFeatureUsage f c) m = recordFeatureUsage f c m"
| "call (Reset t1 t2) m = Some (reset t1 t2 m)"

fun calls :: "tracker_call list \<Rightarrow> AdoptionMetrics \<Rightarrow> AdoptionMetrics option" where
  "calls [] m = Some m"
| "calls (c # cs) m = (case call c m of None \<Rightarrow> None | Some m' \<Rightarrow> calls cs m')"

text \<open>The count a feature has in the dictionary, a missing key counting as zero.\<close>

definition usage_count :: "AdoptionMetrics \<Rightarrow> string \<Rightarrow> int" where
  "usage_count m k = (case map_of (featureUsage m) k of None \<Rightarrow> 0 | Some v \<Rightarrow> v)"

text \<open>
  Coherence of the counters with the histories, and the order in which the keys of the
  dictionary were first recorded by a sequence of calls (a reset forgets them).
\<close>

definition coherent :: "AdoptionMetrics \<Rightarrow> bool" where
  "coherent m =
     (filesAnalyzed m = int (length (analysisHistory m))
      \<and> fixesApplied m = int (length (fixHistory m))
      \<and> issuesFound m = sum_list (map a_issuesCount (analysisHistory m)))"

fun first_recorded :: "tracker_call list \<Rightarrow> string list \<Rightarrow> string list" where
  "first_recorded [] ks = ks"
| "first_recorded (RecordFeatureUsage f c # cs) ks =
     first_recorded cs (if f \<in> set ks then ks else ks @ [f])"
| "first_recorded (Reset t1 t2 # cs) ks = first_recorded cs []"
| "first_recorded (RecordAnalysis t1 t2 p n l # cs) ks = first_recorded cs ks"
| "first_recorded (RecordFix t f n # cs) ks = first_recorded cs ks"

text \<open>
  The closed form of the progress figure in terms of the three counters, with the upper
  cap that the code applies.
\<close>

definition closed_form :: "AdoptionMetrics \<Rightarrow> int" where
  "closed_form m =
     (if 0 < filesAnalyzed m \<and> issuesFound m = 0 then 100
      else if filesAnalyzed m = 0 then 0
      else min (round_percent (fixesApplied m) (issuesFound m)) 100)"

section \<open>Recommendations and timeline (src/webviewProvider.ts)\<close>

record recommendation =
  r_id :: string
  r_type :: string
  r_title :: string
  r_description :: string
  r_action :: string
  r_actionable :: bool
  r_impact :: string

text \<open>
  The five object literals that \<open>generateRecommendations\<close> pushes, each as a function of
  the values its template literals interpolate.
\<close>

definition low_fix_rate_recommendation :: "int \<Rightarrow> int \<Rightarrow> recommendation" where
  "low_fix_rate_recommendation issues fixRate =
     \<lparr>r_id = ''low_fix_rate'', r_type = ''priority'',
      r_title = ''Apply Available Quick Fixes'',
      r_description = ''You have '' @ show_int issues @ '' issues but only ''
        @ show_int fixRate
        @ ''% fixed. Use VS Code's quick fix actions (Ctrl+.) to modernize your code faster.'',
      r_action = ''Apply Quick Fixes'', r_actionable = True, r_impact = ''High''\<rparr>"

definition high_density_recommendation :: "int \<Rightarrow> recommendation" where
  "high_density_recommendation avgIssuesPerFile =
     \<lparr>r_id = ''high_density'', r_type = ''warning'',
      r_title = ''Focus on High-Impact Files'',
      r_description = ''Average '' @ show_int avgIssuesPerFile
        @ '' legacy patterns per file. Prioritize files with the most issues for maximum impact.'',
      r_action = ''View File Analysis'', r_actionable = True, r_impact = ''Medium''\<rparr>"

definition common_pattern_recommendation :: "usage_entry \<Rightarrow> recommendation" where
  "common_pattern_recommendation topFeature =
     \<lparr>r_id = ''common_pattern'', r_type = ''info'',
      r_title = ''Modernize '' @ [CHR 0x22] @ feature topFeature @ [CHR 0x22] @ '' Usage'',
      r_description = [CHR 0x22] @ feature topFeature @ [CHR 0x22] @ '' appears ''
        @ show_int (count topFeature)
        @ '' times. This is your biggest modernization opportunity.'',
      r_action = ''View Alternatives'', r_actionable = True, r_impact = ''High''\<rparr>"

definition baseline_adoption_recommendation :: recommendation where
  "baseline_adoption_recommendation =
     \<lparr>r_id = ''baseline_adoption'', r_type = ''suggestion'',
      r_title = ''Adopt More Baseline Features'',
      r_description = ''850+ web features are widely available (Baseline High). Consider using modern APIs and CSS properties that are safe across all browsers.'',
      r_action = ''Explore Baseline Features'', r_actionable = True, r_impact = ''Medium''\<rparr>"

definition browser_compatibility_recommendation :: recommendation where
  "browser_compatibility_recommendation =
     \<lparr>r_id = ''browser_compatibility'', r_type = ''info'',
      r_title = ''Excellent Browser Support Available'',
      r_description = ''Chrome (82%), Firefox (77%), Safari (71%), Edge (78%) - Most modern features have strong cross-browser support.'',
      r_action = ''View Browser Matrix'', r_actionable = False, r_impact = ''Low''\<rparr>"

text \<open>
  \<open>generateRecommendations\<close> reads the tracker through \<open>getMetrics\<close> and
  \<open>getMostUsedFeatures\<close> and pushes onto an array that starts empty; \<open>r1\<close> to \<open>r5\<close> are
  the array after each of the five places that push.
\<close>

definition generateRecommendations :: "AdoptionMetrics \<Rightarrow> recommendation list" where
  "generateRecommendations tracker =
     (let metrics = getMetrics tracker;
          r0 = [];
          r1 = (if 0 < issuesFound metrics
                then (let fixRate = Math_round (js_times
                            (js_quotient (fixesApplied metrics) (issuesFound metrics)) 100)
                      in if fixRate < 50
                         then r0 @ [low_fix_rate_recommendation (issuesFound metrics) fixRate]
                         else r0)
                else r0);
          r2 = (if 0 < filesAnalyzed metrics
                then (let avgIssuesPerFile =
                            Math_round (js_quotient (issuesFound metrics) (filesAnalyzed metrics))
                      in if 2 < avgIssuesPerFile
                         then r1 @ [high_density_recommendation avgIssuesPerFile]
                         else r1)
                else r1);
          mostUsedFeatures = getMostUsedFeatures tracker;
          r3 = (case mostUsedFeatures of
                  [] \<Rightarrow> r2
                | topFeature # others \<Rightarrow> r2 @ [common_pattern_recommendation topFeature]);
          r4 = r3 @ [baseline_adoption_recommendation];
          r5 = r4 @ [browser_compatibility_recommendation]
      in r5)"

record timeline_phase =
  p_phase :: string
  p_status :: string
  p_progress :: int
  p_description :: string
  p_duration :: string
  p_priority :: string
  p_tasks :: "string list"

text \<open>The five object literals that \<open>generateTimelineData\<close> pushes.\<close>

definition assessment_phase :: "AdoptionMetrics \<Rightarrow> timeline_phase" where
  "assessment_phase metrics =
     \<lparr>p_phase = ''Assessment'',
      p_status = (if 0 < filesAnalyzed metrics then ''completed'' else ''pending''),
      p_progress = (if 0 < filesAnalyzed metrics then 100 else 0),
      p_description = ''Analyzed '' @ show_int (filesAnalyzed metrics)
        @ '' files and identified '' @ show_int (issuesFound metrics)
        @ '' modernization opportunities'',
      p_duration = ''1-2 days'', p_priority = ''high'',
      p_tasks = [''Scan codebase for legacy patterns'', ''Identify browser compatibility gaps'',
        ''Catalog modernization opportunities'', ''Generate baseline compatibility report'']\<rparr>"

definition planning_phase :: "AdoptionMetrics \<Rightarrow> timeline_phase" where
  "planning_phase metrics =
     \<lparr>p_phase = ''Planning'',
      p_status = (if 0 < issuesFound metrics then ''completed'' else ''pending''),
      p_progress = (if 0 < issuesFound metrics then 100 else 0),
      p_description = ''Prioritized '' @ show_int (issuesFound metrics)
        @ '' issues by impact and Baseline availability'',
      p_duration = ''2-3 days'', p_priority = ''high'',
      p_tasks = [''Prioritize issues by impact'', ''Research modern alternatives'',
        ''Plan migration strategy'', ''Set up testing framework'']\<rparr>"

definition implementation_phase :: "AdoptionMetrics \<Rightarrow> int \<Rightarrow> timeline_phase" where
  "implementation_phase metrics completionRate =
     \<lparr>p_phase = ''Implementation'',
      p_status = (if 0 < completionRate
                  then (if 100 \<le> completionRate then ''completed'' else ''in-progress'')
                  else ''pending''),
      p_progress = completionRate,
      p_description = ''Applied '' @ show_int (fixesApplied metrics) @ '' of ''
        @ show_int (issuesFound metrics) @ '' modernizations (''
        @ show_int completionRate @ ''% complete)'',
      p_duration = ''1-2 weeks'', p_priority = ''medium'',
      p_tasks = [''Replace var with let/const'', ''Migrate XMLHttpRequest to Fetch'',
        ''Convert float layouts to Flexbox'', ''Update semantic HTML structure'']\<rparr>"

definition testing_phase :: "int \<Rightarrow> timeline_phase" where
  "testing_phase completionRate =
     \<lparr>p_phase = ''Testing'',
      p_status = (if 80 \<le> completionRate then ''in-progress'' else ''pending''),
      p_progress = (if 80 \<le> completionRate then 60 else 0),
      p_description = ''Cross-browser testing and performance validation'',
      p_duration = ''3-5 days'', p_priority = ''high'',
      p_tasks = [''Test across target browsers'', ''Validate performance improvements'',
        ''Check accessibility compliance'', ''Verify responsive behavior'']\<rparr>"

definition deployment_phase :: "int \<Rightarrow> timeline_phase" where
  "deployment_phase completionRate =
     \<lparr>p_phase = ''Deployment'',
      p_status = (if 100 \<le> completionRate then ''ready'' else ''pending''),
      p_progress = (if 100 \<le> completionRate then 100 else 0),
      p_description = ''Production deployment and monitoring'',
      p_duration = ''1-2 days'', p_priority = ''low'',
      p_tasks = [''Deploy to staging environment'', ''Run automated tests'',
        ''Monitor performance metrics'', ''Deploy to production'']\<rparr>"

definition generateTimelineData :: "AdoptionMetrics \<Rightarrow> timeline_phase list" where
  "generateTimelineData tracker =
     (let metrics = getMetrics tracker;
          completionRate =
            (if 0 < issuesFound metrics
             then Math_round (js_times
                    (js_quotient (fixesApplied metrics) (issuesFound metrics)) 100)
             else 0);
          t1 = [] @ [assessment_phase metrics];
          t2 = t1 @ [planning_phase metrics];
          t3 = t2 @ [implementation_phase metrics completionRate];
          t4 = t3 @ [testing_phase completionRate];
          t5 = t4 @ [deployment_phase completionRate]
      in t5)"

text \<open>The percentage that the timeline derives from the counters.\<close>

definition completion_rate :: "AdoptionMetrics \<Rightarrow> int" where
  "completion_rate m =
     (if 0 < issuesFound m then round_percent (fixesApplied m) (issuesFound m) else 0)"

section \<open>The catalog of modern alternatives (BaselineService)\<close>

text \<open>
  \<open>modernAlternatives\<close> is a \<open>Map\<close> from a legacy pattern to an array of alternatives: an
  association list in insertion order, whose keys are distinct. \<open>Map.get\<close> is \<open>map_of\<close>.
  An array is truthy even when empty, so the test of \<open>exactMatch\<close> asks whether the key
  is there. The lookup never reads a field of an alternative, so it is polymorphic in
  their type.
\<close>

fun collect_partial :: "string \<Rightarrow> (string \<times> 'a list) list \<Rightarrow> 'a list \<Rightarrow> 'a list" where
  "collect_partial legacyPattern [] partialMatches = partialMatches"
| "collect_partial legacyPattern ((pattern, alternatives) # rest) partialMatches =
     collect_partial legacyPattern rest
       (if str_includes legacyPattern pattern \<or> str_includes pattern legacyPattern
        then partialMatches @ alternatives else partialMatches)"

definition getModernAlternatives :: "(string \<times> 'a list) list \<Rightarrow> string \<Rightarrow> 'a list" where
  "getModernAlternatives catalog legacyPattern =
     (case map_of catalog legacyPattern of
        Some exactMatch \<Rightarrow> exactMatch
      | None \<Rightarrow> collect_partial legacyPattern catalog [])"

text \<open>
  The catalog that \<open>initializeModernAlternatives\<close> builds, each alternative abridged to the
  fields that identify it (its descriptive texts, support table and lists are left out).
\<close>

record ModernAlternative =
  alt_feature :: string
  alt_replacement :: string
  alt_baselineStatus :: string

definition modernAlternatives :: "(string \<times> ModernAlternative list) list" where
  "modernAlternatives =
     [(''var'',
        [\<lparr>alt_feature = ''let-const'', alt_replacement = ''let/const'',
          alt_baselineStatus = ''high''\<rparr>]),
      (''XMLHttpRequest'',
        [\<lparr>alt_feature = ''fetch'', alt_replacement = ''Fetch API'',
          alt_baselineStatus = ''high''\<rparr>]),
      (''float'',
        [\<lparr>alt_feature = ''flexbox'', alt_replacement = ''CSS Flexbox'',
          alt_baselineStatus = ''high''\<rparr>,
         \<lparr>alt_feature = ''grid'', alt_replacement = ''CSS Grid'',
          alt_baselineStatus = ''high''\<rparr>]),
      (''function'',
        [\<lparr>alt_feature = ''arrow-functions'', alt_replacement = ''Arrow Functions'',
          alt_baselineStatus = ''high''\<rparr>]),
      (''<div>'',
        [\<lparr>alt_feature = ''semantic-elements'', alt_replacement = ''Semantic HTML5 Elements'',
          alt_baselineStatus = ''high''\<rparr>]),
      (''<b><i><u>'',
        [\<lparr>alt_feature = ''semantic-formatting'', alt_replacement = ''Semantic Text Elements'',
          alt_baselineStatus = ''high''\<rparr>])]"

text \<open>A key matches a query partially when either contains the other.\<close>

definition partial_match :: "string \<Rightarrow> string \<Rightarrow> bool" where
  "partial_match q k = ((\<exists>u v. q = u @ k @ v) \<or> (\<exists>u v. k = u @ q @ v))"

section \<open>Object identity: what a snapshot shares with the tracker\<close>

text \<open>
  The records above are values. What a caller can do to the tracker through the object
  that \<open>getMetrics\<close> returns depends on which objects are shared, so here the tracker's
  objects live in a store. The metrics object holds its counters and instants directly and
  refers to three other objects: the dictionary and the two history arrays.
\<close>

type_synonym ref = nat

record metrics_object =
  o_filesAnalyzed :: int
  o_issuesFound :: int
  o_fixesApplied :: int
  o_featureUsage :: ref
  o_modernizationProgress :: int
  o_lastAnalysis :: int
  o_sessionStartTime :: int
  o_analysisHistory :: ref
  o_fixHistory :: ref

datatype heap_object =
    Metrics metrics_object
  | Dictionary "(string \<times> int) list"
  | AnalysisArray "analysis_entry list"
  | FixArray "fix_entry list"

type_synonym heap = "heap_object list"

definition alloc :: "heap \<Rightarrow> heap_object \<Rightarrow> heap \<times> ref" where
  "alloc h obj = (h @ [obj], length h)"

definition deref :: "heap \<Rightarrow> ref \<Rightarrow> heap_object option" where
  "deref h r = (if r < length h then Some (h ! r) else None)"

definition store :: "heap \<Rightarrow> ref \<Rightarrow> heap_object \<Rightarrow> heap" where
  "store h r obj = h[r := obj]"

text \<open>The constructor allocates the three containers and the metrics object that refers to them.\<close>

definition h_new_tracker :: "int \<Rightarrow> int \<Rightarrow> heap \<Rightarrow> heap \<times> ref" where
  "h_new_tracker t1 t2 h =
     (let (h1, u) = alloc h (Dictionary []);
          (h2, a) = alloc h1 (AnalysisArray []);
          (h3, f) = alloc h2 (FixArray [])
      in alloc h3
           (Metrics \<lparr>o_filesAnalyzed = 0, o_issuesFound = 0, o_fixesApplied = 0,
              o_featureUsage = u, o_modernizationProgress = 0, o_lastAnalysis = t1,
              o_sessionStartTime = t2, o_analysisHistory = a, o_fixHistory = f\<rparr>))"

text \<open>
  \<open>getMetrics\<close> returns \<open>{ ...this.metrics }\<close>: a new object with the same field values,
  the three references among them. \<open>metrics\<close> is what \<open>this.metrics\<close> refers to.
\<close>

definition h_getMetrics :: "heap \<Rightarrow> ref \<Rightarrow> (heap \<times> ref) option" where
  "h_getMetrics h metrics =
     (case deref h metrics of
        Some (Metrics obj) \<Rightarrow> Some (alloc h (Metrics obj))
      | _ \<Rightarrow> None)"

text \<open>
  The state a metrics object stands for, with the references followed: every operation of
  the tracker reads \<open>this.metrics\<close> this far and no further.
\<close>

definition view :: "heap \<Rightarrow> ref \<Rightarrow> AdoptionMetrics option" where
  "view h r =
     (case deref h r of
        Some (Metrics obj) \<Rightarrow>
          (case deref h (o_featureUsage obj) of
             Some (Dictionary u) \<Rightarrow>
               (case deref h (o_analysisHistory obj) of
                  Some (AnalysisArray a) \<Rightarrow>
                    (case deref h (o_fixHistory obj) of
                       Some (FixArray f) \<Rightarrow>
                         Some \<lparr>filesAnalyzed = o_filesAnalyzed obj,
                           issuesFound = o_issuesFound obj,
                           fixesApplied = o_fixesApplied obj, featureUsage = u,
                           modernizationProgress = o_modernizationProgress obj,
                           lastAnalysis = o_lastAnalysis obj,
                           sessionStartTime = o_sessionStartTime obj,
                           analysisHistory = a, fixHistory = f\<rparr>
                     | _ \<Rightarrow> None)
                | _ \<Rightarrow> None)
           | _ \<Rightarrow> None)
      | _ \<Rightarrow> None)"

text \<open>
  What a caller can do with a snapshot \<open>s\<close>: assign to its fields (\<open>change\<close> is the effect
  of the assignments on the fields), push onto one of its arrays, write a property of its
  dictionary.
\<close>

definition caller_assigns :: "heap \<Rightarrow> ref \<Rightarrow> (metrics_object \<Rightarrow> metrics_object) \<Rightarrow> heap option" where
  "caller_assigns h s change =
     (case deref h s of
        Some (Metrics obj) \<Rightarrow> Some (store h s (Metrics (change obj)))
      | _ \<Rightarrow> None)"

definition caller_pushes_analysis :: "heap \<Rightarrow> ref \<Rightarrow> analysis_entry \<Rightarrow> heap option" where
  "caller_pushes_analysis h s e =
     (case deref h s of
        Some (Metrics obj) \<Rightarrow>
          (case deref h (o_analysisHistory obj) of
             Some (AnalysisArray a) \<Rightarrow>
               Some (store h (o_analysisHistory obj) (AnalysisArray (a @ [e])))
           | _ \<Rightarrow> None)
      | _ \<Rightarrow> None)"

definition caller_pushes_fix :: "heap \<Rightarrow> ref \<Rightarrow> fix_entry \<Rightarrow> heap option" where
  "caller_pushes_fix h s e =
     (case deref h s of
        Some (Metrics obj) \<Rightarrow>
          (case deref h (o_fixHistory obj) of
             Some (FixArray f) \<Rightarrow> Some (store h (o_fixHistory obj) (FixArray (f @ [e])))
           | _ \<Rightarrow> None)
      | _ \<Rightarrow> None)"

definition caller_writes_usage :: "heap \<Rightarrow> ref \<Rightarrow> string \<Rightarrow> int \<Rightarrow> heap option" where
  "caller_writes_usage h s k v =
     (case deref h s of
        Some (Metrics obj) \<Rightarrow>
          (case deref h (o_featureUsage obj) of
             Some (Dictionary u) \<Rightarrow>
               Some (store h (o_featureUsage obj) (Dictionary (set_property u k v)))
           | _ \<Rightarrow> None)
      | _ \<Rightarrow> None)"

section \<open>Properties\<close>

subsection \<open>Rounding never turns a non-negative value negative\<close>

lemma pow2_pos: "0 < pow2 e"
  by (simp add: pow2_def)

lemma round_ties_even_nonneg: "0 \<le> x \<Longrightarrow> 0 \<le> round_ties_even x"
  by (auto simp add: round_ties_even_def Let_def)

lemma fl_nonneg: "0 \<le> x \<Longrightarrow> 0 \<le> fl x"
  by (auto simp add: fl_def Let_def pow2_pos round_ties_even_nonneg less_imp_le)

lemma Math_round_nonneg: "0 \<le> x \<Longrightarrow> 0 \<le> Math_round x"
  by (simp add: Math_round_def)

lemma round_percent_nonneg: "0 \<le> a \<Longrightarrow> 0 < b \<Longrightarrow> 0 \<le> round_percent a b"
  unfolding round_percent_def js_times_def js_quotient_def
  by (intro Math_round_nonneg fl_nonneg mult_nonneg_nonneg divide_nonneg_nonneg) simp_all

text \<open>
  Binary64 arithmetic is visible in the percentage: \<open>23 / 40\<close> is exactly \<open>57.5\<close> percent,
  but the product of the rounded quotient with \<open>100\<close> falls just below it.
\<close>

lemma round_percent_examples:
  "round_percent 1 10 = 10" "round_percent 2 4 = 50" "round_percent 1 1 = 100"
  "round_percent 1 (- 1) = - 100" "round_percent 23 40 = 57"
  by code_simp+

subsection \<open>What each operation does to the fields\<close>

lemma updateModernizationProgress_fields [simp]:
  "filesAnalyzed (updateModernizationProgress m) = filesAnalyzed m"
  "issuesFound (updateModernizationProgress m) = issuesFound m"
  "fixesApplied (updateModernizationProgress m) = fixesApplied m"
  "featureUsage (updateModernizationProgress m) = featureUsage m"
  "analysisHistory (updateModernizationProgress m) = analysisHistory m"
  "fixHistory (updateModernizationProgress m) = fixHistory m"
  "lastAnalysis (updateModernizationProgress m) = lastAnalysis m"
  "sessionStartTime (updateModernizationProgress m) = sessionStartTime m"
  by (simp_all add: updateModernizationProgress_def Let_def)

lemma updateModernizationProgress_progress:
  "modernizationProgress (updateModernizationProgress m) =
     (if issuesFound m = 0 then (if 0 < filesAnalyzed m then 100 else 0)
      else min (round_percent (fixesApplied m) (issuesFound m)) 100)"
  by (simp add: updateModernizationProgress_def Let_def round_percent_def)

lemma recordFeatureUsage_fields:
  assumes "recordFeatureUsage f c m = Some m'"
  shows "filesAnalyzed m' = filesAnalyzed m" "issuesFound m' = issuesFound m"
    "fixesApplied m' = fixesApplied m" "modernizationProgress m' = modernizationProgress m"
    "analysisHistory m' = analysisHistory m" "fixHistory m' = fixHistory m"
    "lastAnalysis m' = lastAnalysis m" "sessionStartTime m' = sessionStartTime m"
  using assms
  by (auto simp add: recordFeatureUsage_def Let_def split: if_splits option.splits)

text \<open>
  The scenarios that the specification lists for the tracker, run on the model: one file
  with four issues, then two fixes; one file without issues; one feature recorded twice.
\<close>

lemma tracker_scenarios:
  "filesAnalyzed (recordAnalysis 1 2 ''a.js'' 4 (Some ''javascript'') (new_tracker 0 0)) = 1"
  "issuesFound (recordAnalysis 1 2 ''a.js'' 4 (Some ''javascript'') (new_tracker 0 0)) = 4"
  "modernizationProgress
     (recordAnalysis 1 2 ''a.js'' 4 (Some ''javascript'') (new_tracker 0 0)) = 0"
  "modernizationProgress
     (recordFix 4 ''let-const'' None (recordFix 3 ''let-const'' None
       (recordAnalysis 1 2 ''a.js'' 4 (Some ''javascript'') (new_tracker 0 0)))) = 50"
  "modernizationProgress (recordAnalysis 1 2 ''x.css'' 0 (Some ''css'') (new_tracker 0 0)) = 100"
  "calls [RecordFeatureUsage ''var'' (Some 3), RecordFeatureUsage ''var'' (Some 2)]
     (new_tracker 0 0) = Some ((new_tracker 0 0)\<lparr>featureUsage := [(''var'', 5)]\<rparr>)"
  by code_simp+

subsection \<open>Coherence of counters and histories\<close>

lemma coherent_new_tracker: "coherent (new_tracker t1 t2)"
  by (simp add: coherent_def new_tracker_def)

lemma coherent_reset: "coherent (reset t1 t2 m)"
  by (simp add: coherent_def reset_def)

lemma coherent_recordAnalysis: "coherent m \<Longrightarrow> coherent (recordAnalysis t1 t2 p n l m)"
  by (simp add: coherent_def recordAnalysis_def)

lemma coherent_recordFix: "coherent m \<Longrightarrow> coherent (recordFix t f n m)"
  by (simp add: coherent_def recordFix_def)

lemma coherent_recordFeatureUsage:
  "coherent m \<Longrightarrow> recordFeatureUsage f c m = Some m' \<Longrightarrow> coherent m'"
  by (simp add: coherent_def recordFeatureUsage_fields)

lemma coherent_call: "coherent m \<Longrightarrow> call c m = Some m' \<Longrightarrow> coherent m'"
  by (cases c)
    (auto simp add: coherent_recordAnalysis coherent_recordFix coherent_reset
      intro: coherent_recordFeatureUsage)

lemma coherent_calls: "coherent m \<Longrightarrow> calls cs m = Some m' \<Longrightarrow> coherent m'"
proof (induction cs arbitrary: m)
  case Nil
  then show ?case by simp
next
  case (Cons c cs)
  then show ?case
    by (auto split: option.splits intro: coherent_call)
qed

text \<open>
  C10. In every state that a sequence of calls reaches from a new tracker (a reset among
  the calls starts afresh), the number of files analysed is the length of the analysis
  history, the number of fixes applied is the length of the fix history, and the number
  of issues found is the sum of the issue counts of the analysis history; and every
  single call preserves this coherence.
\<close>

theorem counters_agree_with_histories:
  "(calls cs (new_tracker t1 t2) = Some m \<longrightarrow>
      filesAnalyzed m = int (length (analysisHistory m))
      \<and> fixesApplied m = int (length (fixHistory m))
      \<and> issuesFound m = sum_list (map a_issuesCount (analysisHistory m)))
   \<and> (coherent m0 \<and> call c m0 = Some m1 \<longrightarrow> coherent m1)"
proof (intro conjI impI)
  assume "calls cs (new_tracker t1 t2) = Some m"
  then have "coherent m"
    using coherent_new_tracker coherent_calls by blast
  then show "filesAnalyzed m = int (length (analysisHistory m))"
    and "fixesApplied m = int (length (fixHistory m))"
    and "issuesFound m = sum_list (map a_issuesCount (analysisHistory m))"
    by (simp_all add: coherent_def)
next
  assume "coherent m0 \<and> call c m0 = Some m1"
  then show "coherent m1"
    using coherent_call by blast
qed

theorem counters_agree_with_histories_witness:
  "calls [RecordAnalysis 1 2 ''src/app.js'' 3 None, RecordFix 3 ''let-const'' None,
          RecordAnalysis 4 5 ''src/styles.css'' 2 (Some ''css'')] (new_tracker 0 0)
     = Some (recordAnalysis 4 5 ''src/styles.css'' 2 (Some ''css'')
              (recordFix 3 ''let-const'' None
                (recordAnalysis 1 2 ''src/app.js'' 3 None (new_tracker 0 0))))
   \<and> filesAnalyzed (recordAnalysis 4 5 ''src/styles.css'' 2 (Some ''css'')
              (recordFix 3 ''let-const'' None
                (recordAnalysis 1 2 ''src/app.js'' 3 None (new_tracker 0 0)))) = 2
   \<and> issuesFound (recordAnalysis 4 5 ''src/styles.css'' 2 (Some ''css'')
              (recordFix 3 ''let-const'' None
                (recordAnalysis 1 2 ''src/app.js'' 3 None (new_tracker 0 0)))) = 5
   \<and> length (analysisHistory (recordAnalysis 4 5 ''src/styles.css'' 2 (Some ''css'')
              (recordFix 3 ''let-const'' None
                (recordAnalysis 1 2 ''src/app.js'' 3 None (new_tracker 0 0))))) = 2
   \<and> coherent (recordFix 6 ''fetch'' None (new_tracker 0 0))"
proof -
  let ?cs = "[RecordAnalysis 1 2 ''src/app.js'' 3 None, RecordFix 3 ''let-const'' None,
              RecordAnalysis 4 5 ''src/styles.css'' 2 (Some ''css'')]"
  let ?m = "recordAnalysis 4 5 ''src/styles.css'' 2 (Some ''css'')
              (recordFix 3 ''let-const'' None
                (recordAnalysis 1 2 ''src/app.js'' 3 None (new_tracker 0 0)))"
  have run: "calls ?cs (new_tracker 0 0) = Some ?m"
    by simp
  have first: "coherent (new_tracker 0 0)
      \<and> call (RecordFix 6 ''fetch'' None) (new_tracker 0 0)
          = Some (recordFix 6 ''fetch'' None (new_tracker 0 0))"
    by (simp add: coherent_def new_tracker_def)
  note main = counters_agree_with_histories
    [of ?cs 0 0 ?m "new_tracker 0 0" "RecordFix 6 ''fetch'' None"
      "recordFix 6 ''fetch'' None (new_tracker 0 0)"]
  have files: "filesAnalyzed ?m = 2" and issues: "issuesFound ?m = 5"
    by (simp_all add: recordAnalysis_def recordFix_def new_tracker_def)
  have "filesAnalyzed ?m = int (length (analysisHistory ?m))"
    using main run by blast
  then have "length (analysisHistory ?m) = 2"
    using files by linarith
  moreover note files issues
  moreover have "coherent (recordFix 6 ''fetch'' None (new_tracker 0 0))"
    using main first by blast
  ultimately show ?thesis
    using run by blast
qed

subsection \<open>The progress figure\<close>

lemma closed_form_after_update:
  assumes "coherent m"
  shows "modernizationProgress (updateModernizationProgress m)
           = closed_form (updateModernizationProgress m)"
proof -
  have "0 \<le> filesAnalyzed m" and "filesAnalyzed m = 0 \<Longrightarrow> issuesFound m = 0"
    using assms by (simp_all add: coherent_def)
  then show ?thesis
    by (auto simp add: closed_form_def updateModernizationProgress_progress)
qed

lemma closed_form_call:
  assumes "coherent m" and "modernizationProgress m = closed_form m" and "call c m = Some m'"
  shows "modernizationProgress m' = closed_form m'"
proof (cases c)
  case (RecordAnalysis t1 t2 p n l)
  let ?m1 = "m\<lparr>filesAnalyzed := filesAnalyzed m + 1, issuesFound := issuesFound m + n,
        lastAnalysis := t1,
        analysisHistory := analysisHistory m @
          [\<lparr>a_timestamp = t2, a_fileName = base_name p, a_issuesCount = n,
            a_language = (case l of None \<Rightarrow> ''unknown'' | Some x \<Rightarrow> x)\<rparr>]\<rparr>"
  have "coherent ?m1"
    using assms(1) by (simp add: coherent_def)
  moreover have "m' = updateModernizationProgress ?m1"
    using RecordAnalysis assms(3) by (simp add: recordAnalysis_def)
  ultimately show ?thesis
    using closed_form_after_update by blast
next
  case (RecordFix t f n)
  let ?m1 = "m\<lparr>fixesApplied := fixesApplied m + 1,
        fixHistory := fixHistory m @
          [\<lparr>f_timestamp = t, f_featureId = f,
            f_fileName = base_name (case n of None \<Rightarrow> [] | Some x \<Rightarrow> x)\<rparr>]\<rparr>"
  have "coherent ?m1"
    using assms(1) by (simp add: coherent_def)
  moreover have "m' = updateModernizationProgress ?m1"
    using RecordFix assms(3) by (simp add: recordFix_def)
  ultimately show ?thesis
    using closed_form_after_update by blast
next
  case (RecordFeatureUsage f n)
  then have "recordFeatureUsage f n m = Some m'"
    using assms(3) by simp
  then show ?thesis
    using assms(2) by (simp add: closed_form_def recordFeatureUsage_fields)
next
  case (Reset t1 t2)
  then show ?thesis
    using assms(3) by (auto simp add: closed_form_def reset_def)
qed

lemma closed_form_calls:
  "coherent m \<Longrightarrow> modernizationProgress m = closed_form m \<Longrightarrow> calls cs m = Some m'
     \<Longrightarrow> modernizationProgress m' = closed_form m'"
proof (induction cs arbitrary: m)
  case Nil
  then show ?case by simp
next
  case (Cons c cs)
  from Cons.prems(3) obtain m1 where m1: "call c m = Some m1" "calls cs m1 = Some m'"
    by (auto split: option.splits)
  show ?case
    using Cons.IH [OF coherent_call [OF Cons.prems(1) m1(1)]
        closed_form_call [OF Cons.prems(1,2) m1(1)] m1(2)] .
qed

lemma closed_form_range:
  assumes "coherent m" and "0 \<le> issuesFound m"
  shows "0 \<le> closed_form m \<and> closed_form m \<le> 100"
proof -
  have "0 \<le> fixesApplied m" and "0 \<le> filesAnalyzed m"
    using assms(1) by (simp_all add: coherent_def)
  then show ?thesis
    using assms(2) round_percent_nonneg [of "fixesApplied m" "issuesFound m"]
    by (auto simp add: closed_form_def)
qed

text \<open>
  C1, as amended. In every state that a sequence of calls reaches from a new tracker, the
  progress figure is \<open>100\<close> if files were analysed and no issue was found; else \<open>0\<close> if no
  file was analysed; else the rounded percentage of fixes among issues, capped at \<open>100\<close>.
  It lies between \<open>0\<close> and \<open>100\<close> whenever the number of issues found is not negative.
  The figure is \<open>100\<close> in the third case too, once the fixes reach the issues: the first
  case is no equivalence.
\<close>

theorem modernizationProgress_closed_form:
  assumes "calls cs (new_tracker t1 t2) = Some m"
  shows "modernizationProgress m =
           (if 0 < filesAnalyzed m \<and> issuesFound m = 0 then 100
            else if filesAnalyzed m = 0 then 0
            else min (round_percent (fixesApplied m) (issuesFound m)) 100)
         \<and> (0 \<le> issuesFound m \<longrightarrow>
               0 \<le> modernizationProgress m \<and> modernizationProgress m \<le> 100)"
proof -
  have c: "coherent m"
    using assms coherent_new_tracker coherent_calls by blast
  have "modernizationProgress (new_tracker t1 t2) = closed_form (new_tracker t1 t2)"
    by (simp add: closed_form_def new_tracker_def)
  then have p: "modernizationProgress m = closed_form m"
    using assms coherent_new_tracker closed_form_calls by blast
  show ?thesis
    using p closed_form_range [OF c] by (simp add: closed_form_def)
qed

theorem modernizationProgress_closed_form_witness:
  "calls [RecordAnalysis 1 2 ''a.js'' 4 (Some ''javascript''), RecordFix 3 ''let-const'' None,
          RecordFix 4 ''let-const'' None] (new_tracker 0 0)
     = Some (recordFix 4 ''let-const'' None (recordFix 3 ''let-const'' None
              (recordAnalysis 1 2 ''a.js'' 4 (Some ''javascript'') (new_tracker 0 0))))
   \<and> issuesFound (recordFix 4 ''let-const'' None (recordFix 3 ''let-const'' None
              (recordAnalysis 1 2 ''a.js'' 4 (Some ''javascript'') (new_tracker 0 0)))) = 4
   \<and> modernizationProgress (recordFix 4 ''let-const'' None (recordFix 3 ''let-const'' None
              (recordAnalysis 1 2 ''a.js'' 4 (Some ''javascript'') (new_tracker 0 0)))) = 50
   \<and> modernizationProgress (recordFix 4 ''let-const'' None (recordFix 3 ''let-const'' None
              (recordAnalysis 1 2 ''a.js'' 4 (Some ''javascript'') (new_tracker 0 0)))) \<le> 100"
proof -
  let ?cs = "[RecordAnalysis 1 2 ''a.js'' 4 (Some ''javascript''),
              RecordFix 3 ''let-const'' None, RecordFix 4 ''let-const'' None]"
  let ?m = "recordFix 4 ''let-const'' None (recordFix 3 ''let-const'' None
              (recordAnalysis 1 2 ''a.js'' 4 (Some ''javascript'') (new_tracker 0 0)))"
  have run: "calls ?cs (new_tracker 0 0) = Some ?m"
    by simp
  have fields: "filesAnalyzed ?m = 1" "issuesFound ?m = 4" "fixesApplied ?m = 2"
    by (simp_all add: recordAnalysis_def recordFix_def new_tracker_def)
  note main = modernizationProgress_closed_form [OF run]
  from main have range: "0 \<le> issuesFound ?m \<longrightarrow>
      0 \<le> modernizationProgress ?m \<and> modernizationProgress ?m \<le> 100"
    by blast
  from main have "modernizationProgress ?m =
      (if 0 < filesAnalyzed ?m \<and> issuesFound ?m = 0 then 100
       else if filesAnalyzed ?m = 0 then 0
       else min (round_percent (fixesApplied ?m) (issuesFound ?m)) 100)"
    by blast
  then have "modernizationProgress ?m = 50"
    by (simp add: fields round_percent_examples)
  moreover have "modernizationProgress ?m \<le> 100"
    using range fields by simp
  ultimately show ?thesis
    using run fields by blast
qed

text \<open>
  One issue and one fix give the figure \<open>100\<close> although an issue was found; an issue count
  of \<open>-1\<close> followed by a fix gives \<open>-100\<close>, which nothing raises to \<open>0\<close>.
\<close>

theorem modernizationProgress_counterexample:
  "\<not> (modernizationProgress
          (recordFix 3 ''let-const'' None (recordAnalysis 1 2 ''a.js'' 1 None (new_tracker 0 0)))
        = 100
      \<longleftrightarrow> 0 < filesAnalyzed
          (recordFix 3 ''let-const'' None (recordAnalysis 1 2 ''a.js'' 1 None (new_tracker 0 0)))
        \<and> issuesFound
          (recordFix 3 ''let-const'' None (recordAnalysis 1 2 ''a.js'' 1 None (new_tracker 0 0)))
        = 0)
   \<and> modernizationProgress
        (recordFix 3 ''let-const'' None (recordAnalysis 1 2 ''a.js'' (- 1) None (new_tracker 0 0)))
      = - 100"
  by (simp add: recordFix_def recordAnalysis_def new_tracker_def
      updateModernizationProgress_progress round_percent_examples)

subsection \<open>Reset\<close>

lemma Object_entries_Nil [simp]: "Object_entries [] = []"
  by (simp add: Object_entries_def)

text \<open>
  C8. After \<open>reset\<close> the tracker is in the state the constructor builds, with the instants
  of the reset in place of those of the construction: every counter and the progress are
  zero, the dictionary and both histories are empty, the session starts at the reset. Each
  read operation therefore returns what it returns on a new tracker.
\<close>

theorem reset_restores_initial_state:
  "reset t1 t2 m = new_tracker t1 t2
   \<and> getMetrics (reset t1 t2 m) =
        \<lparr>filesAnalyzed = 0, issuesFound = 0, fixesApplied = 0, featureUsage = [],
         modernizationProgress = 0, lastAnalysis = t1, sessionStartTime = t2,
         analysisHistory = [], fixHistory = []\<rparr>
   \<and> getMostUsedFeatures (reset t1 t2 m) = []
   \<and> getAnalysisHistory (reset t1 t2 m) = []
   \<and> getFixHistory (reset t1 t2 m) = []
   \<and> getSessionStats now (reset t1 t2 m) =
        \<lparr>duration = Math_round (js_quotient (now - t2) (1000 * 60)),
         filesAnalyzedThisSession = 0, issuesFoundThisSession = 0,
         fixesAppliedThisSession = 0, averageIssuesPerFile = 0\<rparr>"
  by (simp add: reset_def new_tracker_def getMetrics_def getMostUsedFeatures_def
      getAnalysisHistory_def getFixHistory_def getSessionStats_def)

subsection \<open>The counts of the dictionary\<close>

lemma map_of_set_property: "map_of (set_property u k v) = (map_of u)(k \<mapsto> v)"
  by (induction u k v rule: set_property.induct) auto

lemma keys_set_property:
  "map fst (set_property u k v) = (if map_of u k = None then map fst u @ [k] else map fst u)"
  by (induction u k v rule: set_property.induct) auto

lemma recordFeatureUsage_defined:
  "f \<notin> set Object_prototype_keys \<Longrightarrow> recordFeatureUsage f cnt m \<noteq> None"
  by (simp add: recordFeatureUsage_def Let_def map_of_set_property falsy_def
      split: option.splits)

lemma recordFeatureUsage_count:
  assumes "recordFeatureUsage f cnt m = Some m'"
  shows "usage_count m' k =
           (if k = f then usage_count m f + (case cnt of None \<Rightarrow> 1 | Some c \<Rightarrow> c)
            else usage_count m k)"
  using assms
  by (auto simp add: recordFeatureUsage_def Let_def usage_count_def falsy_def
      map_of_set_property split: if_splits option.splits)

lemma recordFeatureUsage_keys:
  assumes "recordFeatureUsage f cnt m = Some m'"
  shows "map fst (featureUsage m') =
           (if map_of (featureUsage m) f = None then map fst (featureUsage m) @ [f]
            else map fst (featureUsage m))"
  using assms
  by (auto simp add: recordFeatureUsage_def Let_def keys_set_property map_of_set_property
      falsy_def split: if_splits option.splits)

text \<open>
  C6, as amended. \<open>recordAnalysis\<close> and \<open>recordFix\<close> leave every count of the dictionary as
  it is. \<open>recordFeatureUsage\<close> adds its count argument (\<open>1\<close> when left out) to the count of
  its feature and leaves the others as they are, so no count decreases when the argument
  is not negative. The call is within the model for every feature id that is not the name
  of a member of \<open>Object.prototype\<close>.
\<close>

theorem featureUsage_counts_monotone:
  "usage_count (recordAnalysis t1 t2 p n l m) k = usage_count m k
   \<and> usage_count (recordFix t g fn m) k = usage_count m k
   \<and> (f \<notin> set Object_prototype_keys \<longrightarrow> recordFeatureUsage f cnt m \<noteq> None)
   \<and> (recordFeatureUsage f cnt m = Some m' \<longrightarrow>
        usage_count m' k =
          (if k = f then usage_count m f + (case cnt of None \<Rightarrow> 1 | Some c \<Rightarrow> c)
           else usage_count m k))
   \<and> (recordFeatureUsage f cnt m = Some m' \<and> 0 \<le> (case cnt of None \<Rightarrow> 1 | Some c \<Rightarrow> c) \<longrightarrow>
        usage_count m k \<le> usage_count m' k)"
proof (intro conjI impI)
  show "usage_count (recordAnalysis t1 t2 p n l m) k = usage_count m k"
    by (simp add: usage_count_def recordAnalysis_def)
  show "usage_count (recordFix t g fn m) k = usage_count m k"
    by (simp add: usage_count_def recordFix_def)
  show "recordFeatureUsage f cnt m \<noteq> None" if "f \<notin> set Object_prototype_keys"
    using that by (rule recordFeatureUsage_defined)
  show "usage_count m' k =
      (if k = f then usage_count m f + (case cnt of None \<Rightarrow> 1 | Some c \<Rightarrow> c)
       else usage_count m k)"
    if "recordFeatureUsage f cnt m = Some m'"
    using that by (rule recordFeatureUsage_count)
  show "usage_count m k \<le> usage_count m' k"
    if "recordFeatureUsage f cnt m = Some m' \<and> 0 \<le> (case cnt of None \<Rightarrow> 1 | Some c \<Rightarrow> c)"
    using that recordFeatureUsage_count [of f cnt m m' k] by auto
qed

theorem featureUsage_counts_monotone_witness:
  "''var'' \<notin> set Object_prototype_keys
   \<and> recordFeatureUsage ''var'' (Some 2) ((new_tracker 0 0)\<lparr>featureUsage := [(''var'', 3)]\<rparr>)
       = Some ((new_tracker 0 0)\<lparr>featureUsage := [(''var'', 5)]\<rparr>)
   \<and> usage_count ((new_tracker 0 0)\<lparr>featureUsage := [(''var'', 3)]\<rparr>) ''var'' = 3
   \<and> usage_count ((new_tracker 0 0)\<lparr>featureUsage := [(''var'', 5)]\<rparr>) ''var'' = 5
   \<and> usage_count ((new_tracker 0 0)\<lparr>featureUsage := [(''var'', 3)]\<rparr>) ''float''
       \<le> usage_count ((new_tracker 0 0)\<lparr>featureUsage := [(''var'', 5)]\<rparr>) ''float''"
proof -
  let ?m = "(new_tracker 0 0)\<lparr>featureUsage := [(''var'', 3)]\<rparr>"
  let ?m' = "(new_tracker 0 0)\<lparr>featureUsage := [(''var'', 5)]\<rparr>"
  have plain: "''var'' \<notin> set Object_prototype_keys"
    by (simp add: Object_prototype_keys_def)
  have before: "usage_count ?m ''var'' = 3"
    by (simp add: usage_count_def)
  have "recordFeatureUsage ''var'' (Some 2) ?m \<noteq> None"
    using featureUsage_counts_monotone [where f = "''var''" and cnt = "Some 2" and m = ?m]
      plain by blast
  then have run: "recordFeatureUsage ''var'' (Some 2) ?m = Some ?m'"
    by (simp add: recordFeatureUsage_def Object_prototype_keys_def falsy_def new_tracker_def)
  have "usage_count ?m' ''var'' = usage_count ?m ''var'' + 2"
    using featureUsage_counts_monotone
      [where f = "''var''" and cnt = "Some 2" and m = ?m and m' = ?m' and k = "''var''"] run
    by simp
  then have after: "usage_count ?m' ''var'' = 5"
    using before by simp
  have "usage_count ?m ''float'' \<le> usage_count ?m' ''float''"
    using featureUsage_counts_monotone
      [where f = "''var''" and cnt = "Some 2" and m = ?m and m' = ?m' and k = "''float''"] run
    by simp
  then show ?thesis
    using plain run before after by blast
qed

text \<open>
  A negative count argument is accepted and lowers the count: from a new tracker,
  \<open>recordFeatureUsage('var', -1)\<close> takes the count of \<open>var\<close> from \<open>0\<close> (absent) to \<open>-1\<close>.
\<close>

theorem featureUsage_counts_counterexample:
  "recordFeatureUsage ''var'' (Some (- 1)) (new_tracker 0 0)
     = Some ((new_tracker 0 0)\<lparr>featureUsage := [(''var'', - 1)]\<rparr>)
   \<and> usage_count (new_tracker 0 0) ''var'' = 0
   \<and> usage_count ((new_tracker 0 0)\<lparr>featureUsage := [(''var'', - 1)]\<rparr>) ''var'' = - 1"
  by (simp add: usage_count_def recordFeatureUsage_def Object_prototype_keys_def falsy_def
      new_tracker_def)

subsection \<open>The most used features\<close>

lemma first_recorded_calls:
  "calls cs m = Some m' \<Longrightarrow> map fst (featureUsage m') = first_recorded cs (map fst (featureUsage m))"
proof (induction cs arbitrary: m)
  case Nil
  then show ?case by simp
next
  case (Cons c cs)
  from Cons.prems obtain m1 where m1: "call c m = Some m1" "calls cs m1 = Some m'"
    by (auto split: option.splits)
  have step: "first_recorded (c # cs) (map fst (featureUsage m))
      = first_recorded cs (map fst (featureUsage m1))"
  proof (cases c)
    case (RecordAnalysis t1 t2 p n l)
    then show ?thesis
      using m1(1) by (auto simp add: recordAnalysis_def)
  next
    case (RecordFix t f n)
    then show ?thesis
      using m1(1) by (auto simp add: recordFix_def)
  next
    case (RecordFeatureUsage f n)
    then have "recordFeatureUsage f n m = Some m1"
      using m1(1) by simp
    from recordFeatureUsage_keys [OF this] show ?thesis
      using RecordFeatureUsage by (auto simp add: map_of_eq_None_iff)
  next
    case (Reset t1 t2)
    then show ?thesis
      using m1(1) by (auto simp add: reset_def)
  qed
  show ?case
    using Cons.IH [OF m1(2)] step by simp
qed

lemma Object_entries_plain:
  "list_all (\<lambda>p. \<not> is_array_index (fst p)) u \<Longrightarrow> Object_entries u = u"
  by (simp add: Object_entries_def list_all_iff filter_id_conv filter_empty_conv)

lemma Object_entries_mset: "mset (Object_entries u) = mset u"
  by (simp add: Object_entries_def)

lemma Object_entries_others:
  "filter (\<lambda>p. \<not> is_array_index (fst p)) (Object_entries u)
     = filter (\<lambda>p. \<not> is_array_index (fst p)) u"
  by (simp add: Object_entries_def filter_empty_conv)

lemma Object_entries_indices:
  "filter (\<lambda>p. is_array_index (fst p)) (Object_entries u)
     = sort_key (\<lambda>p. decimal_value (fst p)) (filter (\<lambda>p. is_array_index (fst p)) u)"
proof -
  have "filter (\<lambda>p. is_array_index (fst p))
          (sort_key (\<lambda>p. decimal_value (fst p)) (filter (\<lambda>p. is_array_index (fst p)) u))
        = sort_key (\<lambda>p. decimal_value (fst p)) (filter (\<lambda>p. is_array_index (fst p)) u)"
    by (simp add: filter_id_conv)
  then show ?thesis
    by (simp add: Object_entries_def filter_empty_conv)
qed

lemma ranked_properties:
  fixes es :: "usage_entry list"
  shows "mset (sort_key (\<lambda>e. - count e) es) = mset es"
    and "sorted_wrt (\<lambda>a b. count b \<le> count a) (sort_key (\<lambda>e. - count e) es)"
    and "filter (\<lambda>e. count e = k) (sort_key (\<lambda>e. - count e) es) = filter (\<lambda>e. count e = k) es"
proof -
  show "mset (sort_key (\<lambda>e. - count e) es) = mset es"
    by simp
  have "sorted (map (\<lambda>e. - count e) (sort_key (\<lambda>e. - count e) es))"
    by simp
  then show "sorted_wrt (\<lambda>a b. count b \<le> count a) (sort_key (\<lambda>e. - count e) es)"
    by (simp add: sorted_map)
  have "filter (\<lambda>e. - count e = - k) (sort_key (\<lambda>e. - count e) es)
      = filter (\<lambda>e. - count e = - k) es"
    by (rule sort_key_stable)
  then show "filter (\<lambda>e. count e = k) (sort_key (\<lambda>e. - count e) es)
      = filter (\<lambda>e. count e = k) es"
    by simp
qed

text \<open>
  C4, as amended. In a state reached from a new tracker, the keys of the dictionary stand
  in the order in which they were first recorded. \<open>getMostUsedFeatures\<close> (which takes no
  limit argument) returns the first \<open>10\<close>, or all if there are fewer, of the pairs of the
  dictionary arranged in descending order of count, pairs of equal count standing in the
  order of \<open>Object.entries\<close>. In that order the keys that are array indices come first, by
  ascending numeric value, and the other keys follow in the order of first recording.
  When no key is an array index, ties are therefore broken by first recording.
\<close>

theorem getMostUsedFeatures_order:
  "(calls cs (new_tracker t1 t2) = Some m \<longrightarrow> map fst (featureUsage m) = first_recorded cs [])
   \<and> length (getMostUsedFeatures m) = min 10 (length (featureUsage m))
   \<and> (\<exists>rest.
         mset (getMostUsedFeatures m @ rest)
           = mset (map (\<lambda>(f, c). \<lparr>feature = f, count = c\<rparr>) (featureUsage m))
         \<and> sorted_wrt (\<lambda>a b. count b \<le> count a) (getMostUsedFeatures m @ rest)
         \<and> (\<forall>k. filter (\<lambda>e. count e = k) (getMostUsedFeatures m @ rest)
               = filter (\<lambda>e. count e = k)
                   (map (\<lambda>(f, c). \<lparr>feature = f, count = c\<rparr>) (Object_entries (featureUsage m)))))
   \<and> filter (\<lambda>p. \<not> is_array_index (fst p)) (Object_entries (featureUsage m))
        = filter (\<lambda>p. \<not> is_array_index (fst p)) (featureUsage m)
   \<and> filter (\<lambda>p. is_array_index (fst p)) (Object_entries (featureUsage m))
        = sort_key (\<lambda>p. decimal_value (fst p))
            (filter (\<lambda>p. is_array_index (fst p)) (featureUsage m))
   \<and> (\<exists>n. list_all (\<lambda>p. is_array_index (fst p)) (take n (Object_entries (featureUsage m)))
         \<and> list_all (\<lambda>p. \<not> is_array_index (fst p)) (drop n (Object_entries (featureUsage m))))
   \<and> (list_all (\<lambda>p. \<not> is_array_index (fst p)) (featureUsage m) \<longrightarrow>
         getMostUsedFeatures m
           = take 10 (sort_key (\<lambda>e. - count e)
               (map (\<lambda>(f, c). \<lparr>feature = f, count = c\<rparr>) (featureUsage m))))"
proof (intro conjI impI)
  let ?mk = "\<lambda>(f, c). \<lparr>feature = f, count = c\<rparr>"
  let ?es = "map ?mk (Object_entries (featureUsage m))"
  let ?ranked = "sort_key (\<lambda>e. - count e) ?es"
  have top: "getMostUsedFeatures m = take 10 ?ranked"
    by (simp add: getMostUsedFeatures_def)
  show "map fst (featureUsage m) = first_recorded cs []"
    if "calls cs (new_tracker t1 t2) = Some m"
    using first_recorded_calls [OF that] by (simp add: new_tracker_def)
  have "length (Object_entries (featureUsage m)) = length (featureUsage m)"
    using Object_entries_mset [of "featureUsage m"] by (rule mset_eq_length)
  then show "length (getMostUsedFeatures m) = min 10 (length (featureUsage m))"
    by (simp add: top min.commute)
  have whole: "getMostUsedFeatures m @ drop 10 ?ranked = ?ranked"
    by (simp add: top)
  have "mset ?es = mset (map ?mk (featureUsage m))"
    by (simp add: Object_entries_mset)
  then have "mset (getMostUsedFeatures m @ drop 10 ?ranked) = mset (map ?mk (featureUsage m))
      \<and> sorted_wrt (\<lambda>a b. count b \<le> count a) (getMostUsedFeatures m @ drop 10 ?ranked)
      \<and> (\<forall>k. filter (\<lambda>e. count e = k) (getMostUsedFeatures m @ drop 10 ?ranked)
            = filter (\<lambda>e. count e = k) ?es)"
    unfolding whole using ranked_properties [where es = ?es] by simp
  then show "\<exists>rest.
      mset (getMostUsedFeatures m @ rest) = mset (map ?mk (featureUsage m))
      \<and> sorted_wrt (\<lambda>a b. count b \<le> count a) (getMostUsedFeatures m @ rest)
      \<and> (\<forall>k. filter (\<lambda>e. count e = k) (getMostUsedFeatures m @ rest)
            = filter (\<lambda>e. count e = k) ?es)"
    by blast
  show "filter (\<lambda>p. \<not> is_array_index (fst p)) (Object_entries (featureUsage m))
      = filter (\<lambda>p. \<not> is_array_index (fst p)) (featureUsage m)"
    by (rule Object_entries_others)
  show "filter (\<lambda>p. is_array_index (fst p)) (Object_entries (featureUsage m))
      = sort_key (\<lambda>p. decimal_value (fst p))
          (filter (\<lambda>p. is_array_index (fst p)) (featureUsage m))"
    by (rule Object_entries_indices)
  have "list_all (\<lambda>p. is_array_index (fst p))
          (take (length (filter (\<lambda>p. is_array_index (fst p)) (featureUsage m)))
            (Object_entries (featureUsage m)))
      \<and> list_all (\<lambda>p. \<not> is_array_index (fst p))
          (drop (length (filter (\<lambda>p. is_array_index (fst p)) (featureUsage m)))
            (Object_entries (featureUsage m)))"
    by (simp add: Object_entries_def list_all_iff)
  then show "\<exists>n. list_all (\<lambda>p. is_array_index (fst p)) (take n (Object_entries (featureUsage m)))
      \<and> list_all (\<lambda>p. \<not> is_array_index (fst p)) (drop n (Object_entries (featureUsage m)))"
    by blast
  show "getMostUsedFeatures m
      = take 10 (sort_key (\<lambda>e. - count e) (map ?mk (featureUsage m)))"
    if "list_all (\<lambda>p. \<not> is_array_index (fst p)) (featureUsage m)"
    using Object_entries_plain [OF that] by (simp add: top)
qed

theorem getMostUsedFeatures_order_witness:
  "calls [RecordFeatureUsage ''var'' None, RecordFeatureUsage ''float'' (Some 2),
          RecordFeatureUsage ''function'' None, RecordFeatureUsage ''var'' None]
         (new_tracker 0 0)
     = Some ((new_tracker 0 0)\<lparr>featureUsage := [(''var'', 2), (''float'', 2), (''function'', 1)]\<rparr>)
   \<and> first_recorded [RecordFeatureUsage ''var'' None, RecordFeatureUsage ''float'' (Some 2),
          RecordFeatureUsage ''function'' None, RecordFeatureUsage ''var'' None] []
       = [''var'', ''float'', ''function'']
   \<and> list_all (\<lambda>p. \<not> is_array_index (fst p))
        [(''var'', 2), (''float'', 2), (''function'', 1 :: int)]
   \<and> getMostUsedFeatures
         ((new_tracker 0 0)\<lparr>featureUsage := [(''var'', 2), (''float'', 2), (''function'', 1)]\<rparr>)
       = [\<lparr>feature = ''var'', count = 2\<rparr>, \<lparr>feature = ''float'', count = 2\<rparr>,
          \<lparr>feature = ''function'', count = 1\<rparr>]"
proof -
  let ?cs = "[RecordFeatureUsage ''var'' None, RecordFeatureUsage ''float'' (Some 2),
              RecordFeatureUsage ''function'' None, RecordFeatureUsage ''var'' None]"
  let ?u = "[(''var'', 2), (''float'', 2), (''function'', 1 :: int)]"
  let ?m = "(new_tracker 0 0)\<lparr>featureUsage := ?u\<rparr>"
  have run: "calls ?cs (new_tracker 0 0) = Some ?m"
    by (simp add: recordFeatureUsage_def Object_prototype_keys_def falsy_def new_tracker_def)
  have plain: "list_all (\<lambda>p. \<not> is_array_index (fst p)) ?u"
    by (simp add: is_array_index_def digit_value_def)
  note main = getMostUsedFeatures_order [of ?cs 0 0 ?m]
  have "map fst (featureUsage ?m) = first_recorded ?cs []"
    using main run by blast
  then have order: "first_recorded ?cs [] = [''var'', ''float'', ''function'']"
    by simp
  have "getMostUsedFeatures ?m
      = take 10 (sort_key (\<lambda>e. - count e)
          (map (\<lambda>(f, c). \<lparr>feature = f, count = c\<rparr>) (featureUsage ?m)))"
    using main plain by simp
  then have "getMostUsedFeatures ?m
      = [\<lparr>feature = ''var'', count = 2\<rparr>, \<lparr>feature = ''float'', count = 2\<rparr>,
         \<lparr>feature = ''function'', count = 1\<rparr>]"
    by simp
  then show ?thesis
    using run order plain by blast
qed

text \<open>
  The keys \<open>2\<close> and then \<open>1\<close> are recorded once each. The counts tie, and the key recorded
  second comes first: both are array indices, which \<open>Object.entries\<close> lists in numeric order.
\<close>

theorem getMostUsedFeatures_counterexample:
  "first_recorded [RecordFeatureUsage ''2'' None, RecordFeatureUsage ''1'' None] []
     = [''2'', ''1'']
   \<and> map_option getMostUsedFeatures
        (calls [RecordFeatureUsage ''2'' None, RecordFeatureUsage ''1'' None] (new_tracker 0 0))
     = Some [\<lparr>feature = ''1'', count = 1\<rparr>, \<lparr>feature = ''2'', count = 1\<rparr>]"
proof -
  have "calls [RecordFeatureUsage ''2'' None, RecordFeatureUsage ''1'' None] (new_tracker 0 0)
      = Some ((new_tracker 0 0)\<lparr>featureUsage := [(''2'', 1), (''1'', 1)]\<rparr>)"
    by (simp add: recordFeatureUsage_def Object_prototype_keys_def falsy_def new_tracker_def)
  moreover have "getMostUsedFeatures ((new_tracker 0 0)\<lparr>featureUsage := [(''2'', 1), (''1'', 1)]\<rparr>)
      = [\<lparr>feature = ''1'', count = 1\<rparr>, \<lparr>feature = ''2'', count = 1\<rparr>]"
    by code_simp
  ultimately show ?thesis
    by simp
qed

subsection \<open>Recommendations\<close>

lemma includes_split: "s = a @ x @ b \<Longrightarrow> str_includes s x"
  by (simp add: str_includes_def)

lemma generateRecommendations_cases:
  "generateRecommendations m =
     (if 0 < issuesFound m \<and> round_percent (fixesApplied m) (issuesFound m) < 50
      then [low_fix_rate_recommendation (issuesFound m)
              (round_percent (fixesApplied m) (issuesFound m))]
      else [])
     @ (if 0 < filesAnalyzed m \<and> 2 < Math_round (js_quotient (issuesFound m) (filesAnalyzed m))
        then [high_density_recommendation
                (Math_round (js_quotient (issuesFound m) (filesAnalyzed m)))]
        else [])
     @ (case getMostUsedFeatures m of
          [] \<Rightarrow> []
        | topFeature # others \<Rightarrow> [common_pattern_recommendation topFeature])
     @ [baseline_adoption_recommendation, browser_compatibility_recommendation]"
  unfolding generateRecommendations_def getMetrics_def round_percent_def Let_def
  by (simp split: list.split)

lemma recommendation_ids:
  "r_id (low_fix_rate_recommendation i f) = ''low_fix_rate''"
  "r_type (low_fix_rate_recommendation i f) = ''priority''"
  "r_id (high_density_recommendation a) = ''high_density''"
  "r_type (high_density_recommendation a) = ''warning''"
  "r_id (common_pattern_recommendation t) = ''common_pattern''"
  "r_type (common_pattern_recommendation t) = ''info''"
  "r_id baseline_adoption_recommendation = ''baseline_adoption''"
  "r_type baseline_adoption_recommendation = ''suggestion''"
  "r_id browser_compatibility_recommendation = ''browser_compatibility''"
  "r_type browser_compatibility_recommendation = ''info''"
  by (simp_all add: low_fix_rate_recommendation_def high_density_recommendation_def
      common_pattern_recommendation_def baseline_adoption_recommendation_def
      browser_compatibility_recommendation_def)

lemma low_fix_rate_embeds:
  "str_includes (r_description (low_fix_rate_recommendation i f)) (show_int i)"
  "str_includes (r_description (low_fix_rate_recommendation i f)) (show_int f)"
proof -
  let ?d = "r_description (low_fix_rate_recommendation i f)"
  show "str_includes ?d (show_int i)"
    by (rule includes_split [where a = "''You have ''"])
      (simp add: low_fix_rate_recommendation_def)
  show "str_includes ?d (show_int f)"
    by (rule includes_split [where a = "''You have '' @ show_int i @ '' issues but only ''"])
      (simp add: low_fix_rate_recommendation_def)
qed

lemma high_density_embeds:
  "str_includes (r_description (high_density_recommendation a)) (show_int a)"
  by (rule includes_split [where a = "''Average ''"])
    (simp add: high_density_recommendation_def)

lemma common_pattern_embeds:
  "str_includes (r_title (common_pattern_recommendation t)) (feature t)"
  "str_includes (r_description (common_pattern_recommendation t)) (feature t)"
  "str_includes (r_description (common_pattern_recommendation t)) (show_int (count t))"
proof -
  show "str_includes (r_title (common_pattern_recommendation t)) (feature t)"
    by (rule includes_split [where a = "''Modernize '' @ [CHR 0x22]"])
      (simp add: common_pattern_recommendation_def)
  show "str_includes (r_description (common_pattern_recommendation t)) (feature t)"
    by (rule includes_split [where a = "[CHR 0x22]"])
      (simp add: common_pattern_recommendation_def)
  show "str_includes (r_description (common_pattern_recommendation t)) (show_int (count t))"
    by (rule includes_split
        [where a = "[CHR 0x22] @ feature t @ [CHR 0x22] @ '' appears ''"])
      (simp add: common_pattern_recommendation_def)
qed

lemma browser_compatibility_text:
  "r_description browser_compatibility_recommendation =
     ''Chrome (82%), Firefox (77%), Safari (71%), Edge (78%) - Most modern features have strong cross-browser support.''"
  by (simp add: browser_compatibility_recommendation_def)

text \<open>
  C2. The recommendations are, in this order: a \<open>priority\<close> entry exactly when issues were
  found and the rounded percentage of fixes is below \<open>50\<close>, its description containing the
  issue count and that percentage; a \<open>warning\<close> entry exactly when files were analysed and
  the rounded average of issues per file exceeds \<open>2\<close>, its description containing that
  average; an \<open>info\<close> entry exactly when \<open>getMostUsedFeatures\<close> is not empty, naming its
  first feature and that feature's count; the fixed \<open>suggestion\<close> entry; and the fixed
  \<open>info\<close> entry with the browser support percentages. There is no other entry.
\<close>

theorem generateRecommendations_rules:
  "map (\<lambda>r. (r_id r, r_type r)) (generateRecommendations m) =
     (if 0 < issuesFound m \<and> round_percent (fixesApplied m) (issuesFound m) < 50
      then [(''low_fix_rate'', ''priority'')] else [])
     @ (if 0 < filesAnalyzed m \<and> 2 < Math_round (js_quotient (issuesFound m) (filesAnalyzed m))
        then [(''high_density'', ''warning'')] else [])
     @ (if getMostUsedFeatures m \<noteq> [] then [(''common_pattern'', ''info'')] else [])
     @ [(''baseline_adoption'', ''suggestion''), (''browser_compatibility'', ''info'')]
   \<and> (\<forall>r \<in> set (generateRecommendations m).
        (r_id r = ''low_fix_rate'' \<longrightarrow>
           str_includes (r_description r) (show_int (issuesFound m))
           \<and> str_includes (r_description r)
               (show_int (round_percent (fixesApplied m) (issuesFound m))))
        \<and> (r_id r = ''high_density'' \<longrightarrow>
             str_includes (r_description r)
               (show_int (Math_round (js_quotient (issuesFound m) (filesAnalyzed m)))))
        \<and> (r_id r = ''common_pattern'' \<longrightarrow>
             (\<exists>top rest. getMostUsedFeatures m = top # rest
                \<and> str_includes (r_title r) (feature top)
                \<and> str_includes (r_description r) (feature top)
                \<and> str_includes (r_description r) (show_int (count top))))
        \<and> (r_id r = ''baseline_adoption'' \<longrightarrow> r = baseline_adoption_recommendation)
        \<and> (r_id r = ''browser_compatibility'' \<longrightarrow>
             r = browser_compatibility_recommendation
             \<and> r_description r =
                 ''Chrome (82%), Firefox (77%), Safari (71%), Edge (78%) - Most modern features have strong cross-browser support.''))"
  (is "?order \<and> (\<forall>r \<in> ?recs. ?content r)")
proof (rule conjI)
  show ?order
    by (simp add: generateRecommendations_cases recommendation_ids split: list.split)
next
  show "\<forall>r \<in> ?recs. ?content r"
  proof (rule ballI)
    fix r
    assume "r \<in> ?recs"
    then have "r = low_fix_rate_recommendation (issuesFound m)
                (round_percent (fixesApplied m) (issuesFound m))
        \<or> r = high_density_recommendation
                (Math_round (js_quotient (issuesFound m) (filesAnalyzed m)))
        \<or> (\<exists>top rest. getMostUsedFeatures m = top # rest
              \<and> r = common_pattern_recommendation top)
        \<or> r = baseline_adoption_recommendation
        \<or> r = browser_compatibility_recommendation"
      by (cases "getMostUsedFeatures m")
        (auto simp add: generateRecommendations_cases split: if_splits)
    then consider
      (low) "r = low_fix_rate_recommendation (issuesFound m)
                (round_percent (fixesApplied m) (issuesFound m))"
      | (dense) "r = high_density_recommendation
                (Math_round (js_quotient (issuesFound m) (filesAnalyzed m)))"
      | (common) top rest where "getMostUsedFeatures m = top # rest"
          and "r = common_pattern_recommendation top"
      | (adoption) "r = baseline_adoption_recommendation"
      | (browser) "r = browser_compatibility_recommendation"
      by blast
    then show "?content r"
    proof cases
      case low
      then show ?thesis
        by (simp add: recommendation_ids low_fix_rate_embeds)
    next
      case dense
      then show ?thesis
        by (simp add: recommendation_ids high_density_embeds)
    next
      case common
      then show ?thesis
        by (simp add: recommendation_ids common_pattern_embeds)
    next
      case adoption
      then show ?thesis
        by (simp add: recommendation_ids)
    next
      case browser
      then show ?thesis
        by (simp add: recommendation_ids browser_compatibility_text)
    qed
  qed
qed

theorem generateRecommendations_rules_witness:
  "set (generateRecommendations
          \<lparr>filesAnalyzed = 3, issuesFound = 10, fixesApplied = 1,
           featureUsage = [(''var'', 2), (''float'', 2)], modernizationProgress = 10,
           lastAnalysis = 0, sessionStartTime = 0, analysisHistory = [], fixHistory = []\<rparr>)
     = {low_fix_rate_recommendation 10 10, high_density_recommendation 3,
        common_pattern_recommendation \<lparr>feature = ''var'', count = 2\<rparr>,
        baseline_adoption_recommendation, browser_compatibility_recommendation}
   \<and> map (\<lambda>r. (r_id r, r_type r))
        (generateRecommendations
          \<lparr>filesAnalyzed = 3, issuesFound = 10, fixesApplied = 1,
           featureUsage = [(''var'', 2), (''float'', 2)], modernizationProgress = 10,
           lastAnalysis = 0, sessionStartTime = 0, analysisHistory = [], fixHistory = []\<rparr>)
      = [(''low_fix_rate'', ''priority''), (''high_density'', ''warning''),
         (''common_pattern'', ''info''), (''baseline_adoption'', ''suggestion''),
         (''browser_compatibility'', ''info'')]
   \<and> str_includes (r_description (low_fix_rate_recommendation 10 10)) ''10''
   \<and> str_includes (r_description (high_density_recommendation 3)) ''3''
   \<and> str_includes
        (r_title (common_pattern_recommendation \<lparr>feature = ''var'', count = 2\<rparr>)) ''var''
   \<and> str_includes
        (r_description (common_pattern_recommendation \<lparr>feature = ''var'', count = 2\<rparr>)) ''2''
   \<and> r_description browser_compatibility_recommendation =
        ''Chrome (82%), Firefox (77%), Safari (71%), Edge (78%) - Most modern features have strong cross-browser support.''"
proof -
  let ?m = "\<lparr>filesAnalyzed = 3, issuesFound = 10, fixesApplied = 1,
             featureUsage = [(''var'', 2), (''float'', 2)], modernizationProgress = 10,
             lastAnalysis = 0, sessionStartTime = 0, analysisHistory = [], fixHistory = []\<rparr>"
  let ?top = "\<lparr>feature = ''var'', count = 2\<rparr>"
  have average: "Math_round (js_quotient 10 3) = 3"
    by code_simp
  have used: "getMostUsedFeatures ?m = [?top, \<lparr>feature = ''float'', count = 2\<rparr>]"
    by code_simp
  have texts: "show_int 10 = ''10''" "show_int 3 = ''3''" "show_int 2 = ''2''"
    by code_simp+
  note main = generateRecommendations_rules [of ?m]
  have members: "set (generateRecommendations ?m)
      = {low_fix_rate_recommendation 10 10, high_density_recommendation 3,
         common_pattern_recommendation ?top,
         baseline_adoption_recommendation, browser_compatibility_recommendation}"
    by (simp add: generateRecommendations_cases round_percent_examples average used)
  have order: "map (\<lambda>r. (r_id r, r_type r)) (generateRecommendations ?m)
      = [(''low_fix_rate'', ''priority''), (''high_density'', ''warning''),
         (''common_pattern'', ''info''), (''baseline_adoption'', ''suggestion''),
         (''browser_compatibility'', ''info'')]"
    using main by (simp add: round_percent_examples average used)
  have low: "str_includes (r_description (low_fix_rate_recommendation 10 10)) ''10''"
    using main members by (simp add: recommendation_ids texts)
  have dense: "str_includes (r_description (high_density_recommendation 3)) ''3''"
    using main members by (simp add: recommendation_ids texts average)
  have common: "str_includes (r_title (common_pattern_recommendation ?top)) ''var''
      \<and> str_includes (r_description (common_pattern_recommendation ?top)) ''2''"
    using main members by (simp add: recommendation_ids texts used)
  have browser: "r_description browser_compatibility_recommendation =
      ''Chrome (82%), Firefox (77%), Safari (71%), Edge (78%) - Most modern features have strong cross-browser support.''"
    using main members by (simp add: recommendation_ids)
  show ?thesis
    using members order low dense common browser by blast
qed

subsection \<open>Timeline\<close>

lemma generateTimelineData_phases_list:
  "generateTimelineData m =
     [assessment_phase m, planning_phase m, implementation_phase m (completion_rate m),
      testing_phase (completion_rate m), deployment_phase (completion_rate m)]"
  by (simp add: generateTimelineData_def getMetrics_def completion_rate_def
      round_percent_def Let_def)

lemma phase_summaries:
  "(p_phase (assessment_phase m), p_status (assessment_phase m), p_progress (assessment_phase m))
     = (''Assessment'', if 0 < filesAnalyzed m then ''completed'' else ''pending'',
        if 0 < filesAnalyzed m then 100 else 0)"
  "(p_phase (planning_phase m), p_status (planning_phase m), p_progress (planning_phase m))
     = (''Planning'', if 0 < issuesFound m then ''completed'' else ''pending'',
        if 0 < issuesFound m then 100 else 0)"
  "(p_phase (implementation_phase m c), p_status (implementation_phase m c),
    p_progress (implementation_phase m c))
     = (''Implementation'',
        if 100 \<le> c then ''completed'' else if 0 < c then ''in-progress'' else ''pending'', c)"
  "(p_phase (testing_phase c), p_status (testing_phase c), p_progress (testing_phase c))
     = (''Testing'', if 80 \<le> c then ''in-progress'' else ''pending'', if 80 \<le> c then 60 else 0)"
  "(p_phase (deployment_phase c), p_status (deployment_phase c), p_progress (deployment_phase c))
     = (''Deployment'', if 100 \<le> c then ''ready'' else ''pending'', if 100 \<le> c then 100 else 0)"
  by (simp_all add: assessment_phase_def planning_phase_def implementation_phase_def
      testing_phase_def deployment_phase_def)

text \<open>
  C3. The timeline has exactly the five phases Assessment, Planning, Implementation,
  Testing and Deployment, in this order, with the status and progress that the claim
  gives in terms of the completion rate; with \<open>3\<close> files, \<open>10\<close> issues and \<open>1\<close> fix the
  rate is \<open>10\<close>, Implementation is in progress at \<open>10\<close> and Testing is pending at \<open>0\<close>.
\<close>

theorem generateTimelineData_phases:
  "completion_rate m =
     (if 0 < issuesFound m then round_percent (fixesApplied m) (issuesFound m) else 0)
   \<and> map (\<lambda>p. (p_phase p, p_status p, p_progress p)) (generateTimelineData m) =
     [(''Assessment'', if 0 < filesAnalyzed m then ''completed'' else ''pending'',
         if 0 < filesAnalyzed m then 100 else 0),
      (''Planning'', if 0 < issuesFound m then ''completed'' else ''pending'',
         if 0 < issuesFound m then 100 else 0),
      (''Implementation'',
         if 100 \<le> completion_rate m then ''completed''
         else if 0 < completion_rate m then ''in-progress'' else ''pending'',
         completion_rate m),
      (''Testing'', if 80 \<le> completion_rate m then ''in-progress'' else ''pending'',
         if 80 \<le> completion_rate m then 60 else 0),
      (''Deployment'', if 100 \<le> completion_rate m then ''ready'' else ''pending'',
         if 100 \<le> completion_rate m then 100 else 0)]
   \<and> map (\<lambda>p. (p_phase p, p_status p, p_progress p))
        (generateTimelineData (m\<lparr>filesAnalyzed := 3, issuesFound := 10, fixesApplied := 1\<rparr>)) =
     [(''Assessment'', ''completed'', 100), (''Planning'', ''completed'', 100),
      (''Implementation'', ''in-progress'', 10), (''Testing'', ''pending'', 0),
      (''Deployment'', ''pending'', 0)]"
proof (intro conjI)
  show "completion_rate m =
     (if 0 < issuesFound m then round_percent (fixesApplied m) (issuesFound m) else 0)"
    by (simp add: completion_rate_def)
  show "map (\<lambda>p. (p_phase p, p_status p, p_progress p)) (generateTimelineData m) =
     [(''Assessment'', if 0 < filesAnalyzed m then ''completed'' else ''pending'',
         if 0 < filesAnalyzed m then 100 else 0),
      (''Planning'', if 0 < issuesFound m then ''completed'' else ''pending'',
         if 0 < issuesFound m then 100 else 0),
      (''Implementation'',
         if 100 \<le> completion_rate m then ''completed''
         else if 0 < completion_rate m then ''in-progress'' else ''pending'',
         completion_rate m),
      (''Testing'', if 80 \<le> completion_rate m then ''in-progress'' else ''pending'',
         if 80 \<le> completion_rate m then 60 else 0),
      (''Deployment'', if 100 \<le> completion_rate m then ''ready'' else ''pending'',
         if 100 \<le> completion_rate m then 100 else 0)]"
    unfolding generateTimelineData_phases_list list.map phase_summaries by (rule refl)
  have "completion_rate (m\<lparr>filesAnalyzed := 3, issuesFound := 10, fixesApplied := 1\<rparr>) = 10"
    by (simp add: completion_rate_def round_percent_examples)
  then show "map (\<lambda>p. (p_phase p, p_status p, p_progress p))
        (generateTimelineData (m\<lparr>filesAnalyzed := 3, issuesFound := 10, fixesApplied := 1\<rparr>)) =
     [(''Assessment'', ''completed'', 100), (''Planning'', ''completed'', 100),
      (''Implementation'', ''in-progress'', 10), (''Testing'', ''pending'', 0),
      (''Deployment'', ''pending'', 0)]"
    unfolding generateTimelineData_phases_list list.map phase_summaries by simp
qed

lemma phase_descriptions:
  "p_description (assessment_phase m) =
     ''Analyzed '' @ show_int (filesAnalyzed m) @ '' files and identified ''
       @ show_int (issuesFound m) @ '' modernization opportunities''"
  "p_description (planning_phase m) =
     ''Prioritized '' @ show_int (issuesFound m)
       @ '' issues by impact and Baseline availability''"
  "p_description (implementation_phase m c) =
     ''Applied '' @ show_int (fixesApplied m) @ '' of '' @ show_int (issuesFound m)
       @ '' modernizations ('' @ show_int c @ ''% complete)''"
  "p_description (testing_phase c) = ''Cross-browser testing and performance validation''"
  "p_description (deployment_phase c) = ''Production deployment and monitoring''"
  unfolding assessment_phase_def planning_phase_def implementation_phase_def
    testing_phase_def deployment_phase_def timeline_phase.simps
  by (rule refl)+

text \<open>
  C7, as amended. The descriptions of the first three phases are built from the counters:
  Assessment from the files analysed and the issues found, Planning from the issues
  found, Implementation from the fixes applied, the issues found and the completion rate.
  The descriptions of Testing and Deployment are fixed texts.
\<close>

theorem timeline_descriptions:
  "map p_description (generateTimelineData m) =
     [''Analyzed '' @ show_int (filesAnalyzed m) @ '' files and identified ''
        @ show_int (issuesFound m) @ '' modernization opportunities'',
      ''Prioritized '' @ show_int (issuesFound m)
        @ '' issues by impact and Baseline availability'',
      ''Applied '' @ show_int (fixesApplied m) @ '' of '' @ show_int (issuesFound m)
        @ '' modernizations ('' @ show_int (completion_rate m) @ ''% complete)'',
      ''Cross-browser testing and performance validation'',
      ''Production deployment and monitoring'']"
  unfolding generateTimelineData_phases_list list.map phase_descriptions by (rule refl)

text \<open>
  With \<open>3\<close> files, \<open>10\<close> issues, \<open>1\<close> fix and a rate of \<open>10\<close>, the description of the
  Testing phase (the fourth) contains none of the four values.
\<close>

theorem timeline_descriptions_counterexample:
  "p_description
     (generateTimelineData
        \<lparr>filesAnalyzed = 3, issuesFound = 10, fixesApplied = 1, featureUsage = [],
         modernizationProgress = 10, lastAnalysis = 0, sessionStartTime = 0,
         analysisHistory = [], fixHistory = []\<rparr> ! 3)
     = ''Cross-browser testing and performance validation''
   \<and> \<not> str_includes ''Cross-browser testing and performance validation'' (show_int 3)
   \<and> \<not> str_includes ''Cross-browser testing and performance validation'' (show_int 10)
   \<and> \<not> str_includes ''Cross-browser testing and performance validation'' (show_int 1)
   \<and> completion_rate
        \<lparr>filesAnalyzed = 3, issuesFound = 10, fixesApplied = 1, featureUsage = [],
         modernizationProgress = 10, lastAnalysis = 0, sessionStartTime = 0,
         analysisHistory = [], fixHistory = []\<rparr> = 10"
proof -
  have "\<not> str_includes ''Cross-browser testing and performance validation'' (show_int 3)"
    "\<not> str_includes ''Cross-browser testing and performance validation'' (show_int 10)"
    "\<not> str_includes ''Cross-browser testing and performance validation'' (show_int 1)"
    by code_simp+
  then show ?thesis
    by (simp add: generateTimelineData_phases_list phase_descriptions completion_rate_def
        round_percent_examples)
qed

subsection \<open>Alternatives lookup\<close>

lemma collect_partial_concat:
  "collect_partial q catalog acc =
     acc @ concat (map snd
       (filter (\<lambda>e. str_includes q (fst e) \<or> str_includes (fst e) q) catalog))"
  by (induction q catalog acc rule: collect_partial.induct) auto

lemma str_includes_iff: "str_includes s p \<longleftrightarrow> (\<exists>u v. s = u @ p @ v)"
  by (simp add: str_includes_def sublist_def)

lemma partial_match_iff: "partial_match q k \<longleftrightarrow> str_includes q k \<or> str_includes k q"
  by (simp add: partial_match_def str_includes_iff)

text \<open>
  C9. When the queried id is a key of the catalog, the lookup returns the alternatives
  stored under that key. Otherwise it returns the alternatives of every key that contains
  the queried id or is contained in it, concatenated in catalog order; nothing is removed,
  so the result is as long as the matching entries together.
\<close>

theorem getModernAlternatives_lookup:
  "(distinct (map fst catalog) \<longrightarrow>
      (\<forall>alternatives. (q, alternatives) \<in> set catalog \<longrightarrow>
         getModernAlternatives catalog q = alternatives))
   \<and> (q \<notin> fst ` set catalog \<longrightarrow>
         getModernAlternatives catalog q =
           concat (map snd (filter (\<lambda>e. partial_match q (fst e)) catalog))
         \<and> length (getModernAlternatives catalog q) =
           sum_list (map (\<lambda>e. length (snd e)) (filter (\<lambda>e. partial_match q (fst e)) catalog)))"
proof (intro conjI impI allI)
  fix alternatives
  assume "distinct (map fst catalog)" and "(q, alternatives) \<in> set catalog"
  then have "map_of catalog q = Some alternatives"
    by simp
  then show "getModernAlternatives catalog q = alternatives"
    by (simp add: getModernAlternatives_def)
next
  assume "q \<notin> fst ` set catalog"
  then have "map_of catalog q = None"
    by (simp add: map_of_eq_None_iff)
  then show partial: "getModernAlternatives catalog q =
      concat (map snd (filter (\<lambda>e. partial_match q (fst e)) catalog))"
    by (simp add: getModernAlternatives_def collect_partial_concat partial_match_iff)
  show "length (getModernAlternatives catalog q) =
      sum_list (map (\<lambda>e. length (snd e)) (filter (\<lambda>e. partial_match q (fst e)) catalog))"
    unfolding partial by (simp add: length_concat comp_def)
qed

theorem getModernAlternatives_lookup_witness:
  "map alt_feature (getModernAlternatives modernAlternatives ''float'') = [''flexbox'', ''grid'']
   \<and> map alt_feature (getModernAlternatives modernAlternatives ''a'')
       = [''let-const'', ''flexbox'', ''grid'']
   \<and> getModernAlternatives [(''ab'', [1 :: nat]), (''bc'', [1])] ''b'' = [1, 1]"
proof -
  have keys: "distinct (map fst modernAlternatives)"
    by (simp add: modernAlternatives_def)
  have stored: "(''float'',
      [\<lparr>alt_feature = ''flexbox'', alt_replacement = ''CSS Flexbox'', alt_baselineStatus = ''high''\<rparr>,
       \<lparr>alt_feature = ''grid'', alt_replacement = ''CSS Grid'', alt_baselineStatus = ''high''\<rparr>])
      \<in> set modernAlternatives"
    by (simp add: modernAlternatives_def)
  have "getModernAlternatives modernAlternatives ''float'' =
      [\<lparr>alt_feature = ''flexbox'', alt_replacement = ''CSS Flexbox'', alt_baselineStatus = ''high''\<rparr>,
       \<lparr>alt_feature = ''grid'', alt_replacement = ''CSS Grid'', alt_baselineStatus = ''high''\<rparr>]"
    using getModernAlternatives_lookup [of modernAlternatives "''float''"] keys stored
    by blast
  then have exact: "map alt_feature (getModernAlternatives modernAlternatives ''float'')
      = [''flexbox'', ''grid'']"
    by simp
  have absent: "''a'' \<notin> fst ` set modernAlternatives"
    by (simp add: modernAlternatives_def)
  have matches: "partial_match ''a'' ''var''" "\<not> partial_match ''a'' ''XMLHttpRequest''"
    "partial_match ''a'' ''float''" "\<not> partial_match ''a'' ''function''"
    "\<not> partial_match ''a'' ''<div>''" "\<not> partial_match ''a'' ''<b><i><u>''"
    unfolding partial_match_iff by code_simp+
  have "getModernAlternatives modernAlternatives ''a'' =
      concat (map snd (filter (\<lambda>e. partial_match ''a'' (fst e)) modernAlternatives))"
    using getModernAlternatives_lookup [of modernAlternatives "''a''"] absent
    by blast
  then have partial: "map alt_feature (getModernAlternatives modernAlternatives ''a'')
      = [''let-const'', ''flexbox'', ''grid'']"
    by (simp add: modernAlternatives_def matches)
  have "''b'' \<notin> fst ` set [(''ab'', [1 :: nat]), (''bc'', [1])]"
    by simp
  moreover have "partial_match ''b'' ''ab''" "partial_match ''b'' ''bc''"
    unfolding partial_match_iff by code_simp+
  ultimately have "getModernAlternatives [(''ab'', [1 :: nat]), (''bc'', [1])] ''b'' = [1, 1]"
    using getModernAlternatives_lookup [of "[(''ab'', [1 :: nat]), (''bc'', [1])]" "''b''"]
    by simp
  then show ?thesis
    using exact partial by blast
qed

subsection \<open>Snapshots\<close>

lemma h_new_tracker_view:
  "h_new_tracker t1 t2 h = (h', metrics) \<Longrightarrow> view h' metrics = Some (new_tracker t1 t2)"
  by (auto simp add: h_new_tracker_def alloc_def view_def deref_def new_tracker_def
      nth_append)

lemma deref_alloc:
  "deref (fst (alloc h obj)) r =
     (if r = length h then Some obj else deref h r)"
  by (auto simp add: alloc_def deref_def nth_append)

lemma length_alloc: "length (fst (alloc h obj)) = Suc (length h)"
  by (simp add: alloc_def)

lemma deref_store:
  "deref (store h r obj) r' = (if r' = r \<and> r < length h then Some obj else deref h r')"
  by (auto simp add: store_def deref_def)

lemma deref_bound: "deref h r = Some obj \<Longrightarrow> r < length h"
  by (simp add: deref_def split: if_splits)

lemma deref_fresh: "deref h r = Some obj \<Longrightarrow> r \<noteq> length h"
  by (auto dest: deref_bound)

text \<open>
  The snapshot is a new object, it stands for the same state as the tracker's object, and
  taking it changes nothing for the tracker.
\<close>

lemma h_getMetrics_snapshot:
  assumes "h_getMetrics h metrics = Some (h1, s)" and "view h metrics = Some m"
  shows "s \<noteq> metrics" and "view h1 metrics = Some m" and "view h1 s = Some m"
proof -
  from assms(1) obtain obj where obj: "deref h metrics = Some (Metrics obj)"
    and h1: "h1 = fst (alloc h (Metrics obj))" and s: "s = length h"
    by (auto simp add: h_getMetrics_def alloc_def split: option.splits heap_object.splits)
  from obj have "metrics < length h"
    by (rule deref_bound)
  then show "s \<noteq> metrics"
    using s by simp
  from assms(2) obj obtain u a f where parts:
    "deref h (o_featureUsage obj) = Some (Dictionary u)"
    "deref h (o_analysisHistory obj) = Some (AnalysisArray a)"
    "deref h (o_fixHistory obj) = Some (FixArray f)"
    by (auto simp add: view_def split: option.splits heap_object.splits)
  from parts have below: "o_featureUsage obj \<noteq> length h" "o_analysisHistory obj \<noteq> length h"
    "o_fixHistory obj \<noteq> length h"
    by (auto dest: deref_fresh)
  show "view h1 metrics = Some m"
    using assms(2) obj parts below \<open>metrics < length h\<close>
    by (simp add: view_def h1 deref_alloc)
  show "view h1 s = Some m"
    using assms(2) obj parts below
    by (simp add: view_def h1 s deref_alloc)
qed

text \<open>Assigning to fields of the snapshot leaves the tracker as it is.\<close>

lemma caller_assigns_frame:
  assumes "h_getMetrics h metrics = Some (h1, s)" and "view h metrics = Some m"
    and "caller_assigns h1 s change = Some h2"
  shows "view h2 metrics = Some m"
proof -
  from assms(1) obtain obj where obj: "deref h metrics = Some (Metrics obj)"
    and h1: "h1 = fst (alloc h (Metrics obj))" and s: "s = length h"
    by (auto simp add: h_getMetrics_def alloc_def split: option.splits heap_object.splits)
  from obj have metrics: "metrics < length h"
    by (rule deref_bound)
  from assms(2) obj obtain u a f where parts:
    "deref h (o_featureUsage obj) = Some (Dictionary u)"
    "deref h (o_analysisHistory obj) = Some (AnalysisArray a)"
    "deref h (o_fixHistory obj) = Some (FixArray f)"
    by (auto simp add: view_def split: option.splits heap_object.splits)
  from parts have below: "o_featureUsage obj \<noteq> length h" "o_analysisHistory obj \<noteq> length h"
    "o_fixHistory obj \<noteq> length h"
    by (auto dest: deref_fresh)
  from assms(3) have h2: "h2 = store h1 s (Metrics (change obj))"
    by (simp add: caller_assigns_def h1 s deref_alloc)
  show ?thesis
    using assms(2) obj parts below metrics
    by (simp add: view_def h2 h1 s deref_store deref_alloc length_alloc)
qed

text \<open>
  Pushing onto the analysis history of the snapshot pushes onto the tracker's: the array
  is the same object.
\<close>

lemma caller_pushes_analysis_leaks:
  assumes "h_getMetrics h metrics = Some (h1, s)" and "view h metrics = Some m"
  shows "\<exists>h2. caller_pushes_analysis h1 s e = Some h2
          \<and> view h2 metrics = Some (m\<lparr>analysisHistory := analysisHistory m @ [e]\<rparr>)"
proof -
  from assms(1) obtain obj where obj: "deref h metrics = Some (Metrics obj)"
    and h1: "h1 = fst (alloc h (Metrics obj))" and s: "s = length h"
    by (auto simp add: h_getMetrics_def alloc_def split: option.splits heap_object.splits)
  from obj have metrics: "metrics < length h"
    by (rule deref_bound)
  from assms(2) obj obtain u a f where parts:
    "deref h (o_featureUsage obj) = Some (Dictionary u)"
    "deref h (o_analysisHistory obj) = Some (AnalysisArray a)"
    "deref h (o_fixHistory obj) = Some (FixArray f)"
    by (auto simp add: view_def split: option.splits heap_object.splits)
  from parts have below: "o_featureUsage obj < length h" "o_analysisHistory obj < length h"
    "o_fixHistory obj < length h"
    by (auto dest: deref_bound)
  from parts obj have apart: "o_featureUsage obj \<noteq> o_analysisHistory obj"
    "o_fixHistory obj \<noteq> o_analysisHistory obj" "metrics \<noteq> o_analysisHistory obj"
    by auto
  have m: "m = \<lparr>filesAnalyzed = o_filesAnalyzed obj, issuesFound = o_issuesFound obj,
      fixesApplied = o_fixesApplied obj, featureUsage = u,
      modernizationProgress = o_modernizationProgress obj, lastAnalysis = o_lastAnalysis obj,
      sessionStartTime = o_sessionStartTime obj, analysisHistory = a, fixHistory = f\<rparr>"
    using assms(2) obj parts by (simp add: view_def)
  let ?h2 = "store h1 (o_analysisHistory obj) (AnalysisArray (a @ [e]))"
  have "caller_pushes_analysis h1 s e = Some ?h2"
    using parts below by (simp add: caller_pushes_analysis_def h1 s deref_alloc)
  moreover have "view ?h2 metrics = Some (m\<lparr>analysisHistory := analysisHistory m @ [e]\<rparr>)"
    using obj parts below apart metrics
    by (simp add: view_def h1 deref_store deref_alloc length_alloc m)
  ultimately show ?thesis
    by blast
qed

text \<open>The same holds for the fix history and for the dictionary.\<close>

lemma caller_pushes_fix_leaks:
  assumes "h_getMetrics h metrics = Some (h1, s)" and "view h metrics = Some m"
  shows "\<exists>h2. caller_pushes_fix h1 s e = Some h2
          \<and> view h2 metrics = Some (m\<lparr>fixHistory := fixHistory m @ [e]\<rparr>)"
proof -
  from assms(1) obtain obj where obj: "deref h metrics = Some (Metrics obj)"
    and h1: "h1 = fst (alloc h (Metrics obj))" and s: "s = length h"
    by (auto simp add: h_getMetrics_def alloc_def split: option.splits heap_object.splits)
  from obj have metrics: "metrics < length h"
    by (rule deref_bound)
  from assms(2) obj obtain u a f where parts:
    "deref h (o_featureUsage obj) = Some (Dictionary u)"
    "deref h (o_analysisHistory obj) = Some (AnalysisArray a)"
    "deref h (o_fixHistory obj) = Some (FixArray f)"
    by (auto simp add: view_def split: option.splits heap_object.splits)
  from parts have below: "o_featureUsage obj < length h" "o_analysisHistory obj < length h"
    "o_fixHistory obj < length h"
    by (auto dest: deref_bound)
  from parts obj have apart: "o_featureUsage obj \<noteq> o_fixHistory obj"
    "o_analysisHistory obj \<noteq> o_fixHistory obj" "metrics \<noteq> o_fixHistory obj"
    by auto
  have m: "m = \<lparr>filesAnalyzed = o_filesAnalyzed obj, issuesFound = o_issuesFound obj,
      fixesApplied = o_fixesApplied obj, featureUsage = u,
      modernizationProgress = o_modernizationProgress obj, lastAnalysis = o_lastAnalysis obj,
      sessionStartTime = o_sessionStartTime obj, analysisHistory = a, fixHistory = f\<rparr>"
    using assms(2) obj parts by (simp add: view_def)
  let ?h2 = "store h1 (o_fixHistory obj) (FixArray (f @ [e]))"
  have "caller_pushes_fix h1 s e = Some ?h2"
    using parts below by (simp add: caller_pushes_fix_def h1 s deref_alloc)
  moreover have "view ?h2 metrics = Some (m\<lparr>fixHistory := fixHistory m @ [e]\<rparr>)"
    using obj parts below apart metrics
    by (simp add: view_def h1 deref_store deref_alloc length_alloc m)
  ultimately show ?thesis
    by blast
qed

lemma caller_writes_usage_leaks:
  assumes "h_getMetrics h metrics = Some (h1, s)" and "view h metrics = Some m"
  shows "\<exists>h2. caller_writes_usage h1 s k v = Some h2
          \<and> view h2 metrics = Some (m\<lparr>featureUsage := set_property (featureUsage m) k v\<rparr>)"
proof -
  from assms(1) obtain obj where obj: "deref h metrics = Some (Metrics obj)"
    and h1: "h1 = fst (alloc h (Metrics obj))" and s: "s = length h"
    by (auto simp add: h_getMetrics_def alloc_def split: option.splits heap_object.splits)
  from obj have metrics: "metrics < length h"
    by (rule deref_bound)
  from assms(2) obj obtain u a f where parts:
    "deref h (o_featureUsage obj) = Some (Dictionary u)"
    "deref h (o_analysisHistory obj) = Some (AnalysisArray a)"
    "deref h (o_fixHistory obj) = Some (FixArray f)"
    by (auto simp add: view_def split: option.splits heap_object.splits)
  from parts have below: "o_featureUsage obj < length h" "o_analysisHistory obj < length h"
    "o_fixHistory obj < length h"
    by (auto dest: deref_bound)
  from parts obj have apart: "o_analysisHistory obj \<noteq> o_featureUsage obj"
    "o_fixHistory obj \<noteq> o_featureUsage obj" "metrics \<noteq> o_featureUsage obj"
    by auto
  have m: "m = \<lparr>filesAnalyzed = o_filesAnalyzed obj, issuesFound = o_issuesFound obj,
      fixesApplied = o_fixesApplied obj, featureUsage = u,
      modernizationProgress = o_modernizationProgress obj, lastAnalysis = o_lastAnalysis obj,
      sessionStartTime = o_sessionStartTime obj, analysisHistory = a, fixHistory = f\<rparr>"
    using assms(2) obj parts by (simp add: view_def)
  let ?h2 = "store h1 (o_featureUsage obj) (Dictionary (set_property u k v))"
  have "caller_writes_usage h1 s k v = Some ?h2"
    using parts below by (simp add: caller_writes_usage_def h1 s deref_alloc)
  moreover have "view ?h2 metrics
      = Some (m\<lparr>featureUsage := set_property (featureUsage m) k v\<rparr>)"
    using obj parts below apart metrics
    by (simp add: view_def h1 deref_store deref_alloc length_alloc m)
  ultimately show ?thesis
    by blast
qed

text \<open>
  C5 fails on the code. A tracker is constructed, a snapshot is taken, and the caller
  pushes an entry onto the snapshot's analysis history. Before the push the tracker's
  \<open>getAnalysisHistory\<close> returns the empty list; after it, it returns the caller's entry,
  while the tracker's count of files analysed is still \<open>0\<close>.
\<close>

theorem getMetrics_shares_histories:
  "(case h_new_tracker 0 0 [] of
      (h0, metrics) \<Rightarrow>
        (case h_getMetrics h0 metrics of
           None \<Rightarrow> False
         | Some (h1, s) \<Rightarrow>
             (case caller_pushes_analysis h1 s
                     \<lparr>a_timestamp = 0, a_fileName = ''x.css'', a_issuesCount = 7,
                      a_language = ''css''\<rparr> of
                None \<Rightarrow> False
              | Some h2 \<Rightarrow>
                  map_option getAnalysisHistory (view h1 metrics) = Some []
                  \<and> map_option getAnalysisHistory (view h2 metrics) =
                      Some [\<lparr>a_timestamp = 0, a_fileName = ''x.css'', a_issuesCount = 7,
                             a_language = ''css''\<rparr>]
                  \<and> map_option filesAnalyzed (view h2 metrics) = Some 0)))"
  by (simp add: h_new_tracker_def alloc_def view_def deref_def h_getMetrics_def
      caller_pushes_analysis_def store_def getAnalysisHistory_def)

end
